theory Spec2Isabelle
  imports Complex_Main "HOL-Library.Product_Lexorder" "HOL-Library.Multiset"
begin

section \<open>Data model (blog/models.py)\<close>

text \<open>
  A timestamp is kept by its calendar fields, most significant first:
  year, month, day and the time within the day (in microseconds). Python compares
  datetimes field by field in this order, which is the lexicographic order on the tuple.
  The lookups \<open>publish__year\<close>, \<open>publish__month\<close> and \<open>publish__day\<close> read the fields.
\<close>

type_synonym datetime = "int \<times> int \<times> int \<times> int"

definition dt_year :: "datetime \<Rightarrow> int" where
  "dt_year d = fst d"

definition dt_month :: "datetime \<Rightarrow> int" where
  "dt_month d = fst (snd d)"

definition dt_day :: "datetime \<Rightarrow> int" where
  "dt_day d = fst (snd (snd d))"

text \<open>
  \<open>class Post\<close>. The fields \<open>image\<close>, \<open>created\<close> and \<open>updated\<close> are read by no view and
  are left out. \<open>tags\<close> holds the identifiers of the tags attached to the post, one entry
  per row of the tagging table.
\<close>

record post =
  post_id :: nat
  title :: string
  slug :: string
  author :: nat
  body :: string
  publish :: datetime
  tags :: "nat list"

text \<open>\<open>class Comment\<close>: \<open>c_post\<close> is the foreign key to the post.\<close>

record comment =
  c_post :: nat
  c_name :: string
  c_email :: string
  c_body :: string
  c_created :: datetime
  c_active :: bool

text \<open>\<open>taggit.models.Tag\<close>, as far as the views read it.\<close>

record tag =
  tag_id :: nat
  tag_name :: string
  tag_slug :: string

text \<open>The tables the views query.\<close>

record database =
  posts :: "post list"
  comments :: "comment list"
  all_tags :: "tag list"

text \<open>The exceptions the views raise, catch or let through.\<close>

datatype error =
    Http404 | ValueError | OverflowError | AttributeError | MultipleObjectsReturned
  | PageNotAnInteger | EmptyPage

subsection \<open>Ordering\<close>

text \<open>
  \<open>order_by("-k")\<close>: descending by the key. The database leaves the order of rows with
  equal keys open; the model takes one such order.
\<close>

definition order_by_desc :: "('a \<Rightarrow> 'k::linorder) \<Rightarrow> 'a list \<Rightarrow> 'a list" where
  "order_by_desc k xs = rev (sort_key k xs)"

subsection \<open>PublishedManager\<close>

text \<open>
  \<open>PublishedManager.get_queryset\<close>: \<open>filter(publish__lte=timezone.now())\<close>, in the
  model's default order \<open>Meta.ordering = ("-publish",)\<close>. The clock reading \<open>now\<close> is a
  parameter.
\<close>

definition published :: "datetime \<Rightarrow> post list \<Rightarrow> post list" where
  "published now ps = order_by_desc publish (filter (\<lambda>p. publish p \<le> now) ps)"

subsection \<open>Post.get_similar_posts\<close>

text \<open>
  \<open>filter(tags__in=post_tags_ids)\<close> joins every post with its rows of the tagging table
  and keeps the rows whose tag is among \<open>post_tags_ids\<close>; \<open>annotate(same_tags=Count("tags"))\<close>
  groups the kept rows by post and counts them. \<open>same_tags ids p\<close> is that count for the
  post \<open>p\<close>; a post with no kept row is in no group, so it is not in the result.
\<close>

definition same_tags :: "nat list \<Rightarrow> post \<Rightarrow> nat" where
  "same_tags ids p = length (filter (\<lambda>t. t \<in> set ids) (tags p))"

definition get_similar_posts :: "post \<Rightarrow> datetime \<Rightarrow> post list \<Rightarrow> post list" where
  "get_similar_posts self now ps =
     (let post_tags_ids = tags self in
      take 4
        (order_by_desc (\<lambda>p. (same_tags post_tags_ids p, publish p))
          (filter (\<lambda>p. post_id p \<noteq> post_id self)
            (filter (\<lambda>p. 0 < same_tags post_tags_ids p)
              (published now ps)))))"

text \<open>
  The specification's score of a candidate \<open>c\<close> for the reference post \<open>r\<close>: the number
  of tags in both tag sets.
\<close>

definition tag_overlap :: "post \<Rightarrow> post \<Rightarrow> nat" where
  "tag_overlap r c = card (set (tags c) \<inter> set (tags r))"

text \<open>\<open>Post.get_active_comments\<close>, in \<open>Comment.Meta.ordering = ("-created",)\<close>.\<close>

definition get_active_comments :: "post \<Rightarrow> comment list \<Rightarrow> comment list" where
  "get_active_comments self cs =
     order_by_desc c_created
       (filter (\<lambda>c. c_active c) (filter (\<lambda>c. c_post c = post_id self) cs))"

section \<open>Python and Django library behaviour used by the views\<close>

subsection \<open>Truthiness and optional arguments\<close>

text \<open>
  The URL arguments of a view are \<open>None\<close> or a value. \<open>if year and month\<close> and
  \<open>elif tag_slug\<close> test truthiness: \<open>None\<close>, the integer \<open>0\<close> and the empty string are false.
\<close>

definition truthy_int :: "int option \<Rightarrow> bool" where
  "truthy_int v = (case v of None \<Rightarrow> False | Some n \<Rightarrow> n \<noteq> 0)"

definition truthy_str :: "string option \<Rightarrow> bool" where
  "truthy_str v = (case v of None \<Rightarrow> False | Some s \<Rightarrow> s \<noteq> [])"

definition int_arg :: "int option \<Rightarrow> int" where
  "int_arg v = (case v of None \<Rightarrow> 0 | Some n \<Rightarrow> n)"

definition str_arg :: "string option \<Rightarrow> string" where
  "str_arg v = (case v of None \<Rightarrow> [] | Some s \<Rightarrow> s)"

subsection \<open>datetime.datetime(year, month, day)\<close>

definition is_leap :: "int \<Rightarrow> bool" where
  "is_leap y = (y mod 4 = 0 \<and> (y mod 100 \<noteq> 0 \<or> y mod 400 = 0))"

definition days_in_month :: "int \<Rightarrow> int \<Rightarrow> int" where
  "days_in_month y m =
     (if m = 2 then (if is_leap y then 29 else 28)
      else if m \<in> {4, 6, 9, 11} then 30 else 31)"

text \<open>
  The constructor first converts its arguments to C integers of 32 bits, and raises
  \<open>OverflowError\<close> for one that does not fit.
\<close>

definition fits_c_int :: "int \<Rightarrow> bool" where
  "fits_c_int n = (- 2147483648 \<le> n \<and> n \<le> 2147483647)"

text \<open>
  It then raises \<open>ValueError\<close> unless \<open>MINYEAR \<le> year \<le> MAXYEAR\<close> (1 and 9999),
  \<open>1 \<le> month \<le> 12\<close> and the day exists in that month; the time of day is midnight.
\<close>

definition py_datetime :: "int \<Rightarrow> int \<Rightarrow> int \<Rightarrow> error + datetime" where
  "py_datetime y m d =
     (if \<not> (fits_c_int y \<and> fits_c_int m \<and> fits_c_int d) then Inl OverflowError
      else if 1 \<le> y \<and> y \<le> 9999 \<and> 1 \<le> m \<and> m \<le> 12 \<and> 1 \<le> d \<and> d \<le> days_in_month y m
      then Inr (y, m, d, 0)
      else Inl ValueError)"

text \<open>
  The bounds of a year lookup on a \<open>DateTimeField\<close>
  (\<open>year_lookup_bounds_for_datetime_field\<close>): both dates are constructed, the second at
  the last microsecond of the day.
\<close>

definition year_lookup_bounds :: "int \<Rightarrow> error + (datetime \<times> datetime)" where
  "year_lookup_bounds y =
     (case py_datetime y 1 1 of
        Inl e \<Rightarrow> Inl e
      | Inr first \<Rightarrow>
          (case py_datetime y 12 31 of
             Inl e \<Rightarrow> Inl e
           | Inr (ly, lm, ld, lt) \<Rightarrow> Inr (first, (ly, lm, ld, 86399999999))))"

subsection \<open>str.strip() and int(str)\<close>

text \<open>
  Strings are ASCII strings throughout: a character is one byte below 128. The
  characters that \<open>str.strip()\<close> removes are those for which \<open>str.isspace\<close> holds.
\<close>

definition is_space :: "char \<Rightarrow> bool" where
  "is_space c = (c \<in> set [CHR 0x09, CHR 0x0A, CHR 0x0B, CHR 0x0C, CHR 0x0D,
                            CHR 0x1C, CHR 0x1D, CHR 0x1E, CHR 0x1F, CHR 0x20])"

definition py_strip :: "string \<Rightarrow> string" where
  "py_strip s = rev (dropWhile is_space (rev (dropWhile is_space s)))"

definition is_digit :: "char \<Rightarrow> bool" where
  "is_digit c = (c \<in> set ''0123456789'')"

definition digit_val :: "char \<Rightarrow> int" where
  "digit_val c = (case map_of (zip ''0123456789'' [0, 1, 2, 3, 4, 5, 6, 7, 8, 9]) c of
                    None \<Rightarrow> 0 | Some v \<Rightarrow> v)"

text \<open>
  \<open>int(s)\<close> on an ASCII string skips the whitespace of C's \<open>isspace\<close> on both sides: tab,
  line feed, vertical tab, form feed, carriage return and space. The separators 0x1C to
  0x1F, which \<open>str.strip()\<close> removes, are not among them: \<open>int\<close> of the character 0x1F
  followed by the digit 2 raises \<open>ValueError\<close>.
\<close>

definition is_int_space :: "char \<Rightarrow> bool" where
  "is_int_space c = (c \<in> set [CHR 0x09, CHR 0x0A, CHR 0x0B, CHR 0x0C, CHR 0x0D, CHR 0x20])"

definition int_strip :: "string \<Rightarrow> string" where
  "int_strip s = rev (dropWhile is_int_space (rev (dropWhile is_int_space s)))"

text \<open>
  Decimal digits, where a single underscore may stand between two digits.
  \<open>py_digits\<close> is entered on a digit.
\<close>

fun py_digits :: "int \<Rightarrow> string \<Rightarrow> int option" where
  "py_digits acc [] = Some acc"
| "py_digits acc [c] = (if is_digit c then Some (10 * acc + digit_val c) else None)"
| "py_digits acc (c # d # cs) =
     (if is_digit c then py_digits (10 * acc + digit_val c) (d # cs)
      else if c = CHR ''_'' \<and> is_digit d then py_digits acc (d # cs)
      else None)"

text \<open>
  The digits after the sign. A literal of more than 4300 digits (underscores not counted,
  leading zeros counted) is refused: the limit \<open>sys.int_info.default_max_str_digits\<close> of
  CPython 3.11 and of the security releases of the older versions.
\<close>

definition py_number :: "string \<Rightarrow> int option" where
  "py_number s =
     (case s of
        [] \<Rightarrow> None
      | c # cs \<Rightarrow>
          if \<not> is_digit c then None
          else if 4300 < length (filter is_digit s) then None
          else py_digits 0 s)"

text \<open>\<open>int(s)\<close> for a string: \<open>None\<close> stands for the \<open>ValueError\<close>.\<close>

definition py_int :: "string \<Rightarrow> int option" where
  "py_int s =
     (case int_strip s of
        [] \<Rightarrow> None
      | c # cs \<Rightarrow>
          if c = CHR ''-'' then map_option uminus (py_number cs)
          else if c = CHR ''+'' then py_number cs
          else py_number (c # cs))"

subsection \<open>django.core.paginator\<close>

text \<open>
  The argument of \<open>Paginator.page\<close> in the views: \<open>request.GET.get("page")\<close> (a string, or
  \<open>None\<close> when the parameter is absent) or an integer.
\<close>

datatype py_value = PyNone | PyStr string | PyInt int

text \<open>\<open>int(number)\<close>; \<open>None\<close> stands for the \<open>TypeError\<close> or \<open>ValueError\<close>.\<close>

fun to_int :: "py_value \<Rightarrow> int option" where
  "to_int PyNone = None"
| "to_int (PyStr s) = py_int s"
| "to_int (PyInt n) = Some n"

record 'a Page =
  object_list :: "'a list"
  number :: int
  paginator_num_pages :: int

text \<open>
  \<open>Paginator(object_list, per_page)\<close> with the defaults \<open>orphans = 0\<close> and
  \<open>allow_empty_first_page = True\<close>. \<open>num_pages\<close> is \<open>ceil(max(1, count) / per_page)\<close>.
\<close>

definition num_pages :: "nat \<Rightarrow> 'a list \<Rightarrow> int" where
  "num_pages per_page xs = - ((- max 1 (int (length xs))) div int per_page)"

definition validate_number :: "nat \<Rightarrow> 'a list \<Rightarrow> py_value \<Rightarrow> error + int" where
  "validate_number per_page xs v =
     (case to_int v of
        None \<Rightarrow> Inl PageNotAnInteger
      | Some n \<Rightarrow>
          if n < 1 then Inl EmptyPage
          else if n > num_pages per_page xs then (if n = 1 then Inr n else Inl EmptyPage)
          else Inr n)"

definition page :: "nat \<Rightarrow> 'a list \<Rightarrow> py_value \<Rightarrow> error + 'a Page" where
  "page per_page xs v =
     (case validate_number per_page xs v of
        Inl e \<Rightarrow> Inl e
      | Inr n \<Rightarrow>
          let bottom = (n - 1) * int per_page;
              top = bottom + int per_page;
              top = (if top \<ge> int (length xs) then int (length xs) else top)
          in Inr \<lparr>object_list = drop (nat bottom) (take (nat top) xs),
                  number = n,
                  paginator_num_pages = num_pages per_page xs\<rparr>)"

definition has_next :: "'a Page \<Rightarrow> bool" where
  "has_next pg = (number pg < paginator_num_pages pg)"

definition has_previous :: "'a Page \<Rightarrow> bool" where
  "has_previous pg = (number pg > 1)"

subsection \<open>django.shortcuts.get_object_or_404\<close>

text \<open>
  \<open>get_object_or_404\<close> runs \<open>get\<close> on the matching rows: no row is \<open>Http404\<close>, one row
  is returned, and several rows raise \<open>MultipleObjectsReturned\<close>, which it does not catch.
\<close>

definition get_object_or_404 :: "'a list \<Rightarrow> error + 'a" where
  "get_object_or_404 matches =
     (case matches of
        [] \<Rightarrow> Inl Http404
      | [x] \<Rightarrow> Inr x
      | _ \<Rightarrow> Inl MultipleObjectsReturned)"

section \<open>Forms (blog/forms.py)\<close>

text \<open>
  \<open>forms.CharField()\<close> with its defaults \<open>required = True\<close> and \<open>strip = True\<close>: the value
  is stripped, an absent or empty value is an error, and so is a value with a null
  character. \<open>None\<close> stands for the \<open>ValidationError\<close>.
\<close>

definition char_field_clean :: "string option \<Rightarrow> string option" where
  "char_field_clean v =
     (case v of
        None \<Rightarrow> None
      | Some s \<Rightarrow>
          let value = py_strip s
          in if value = [] then None
             else if CHR 0x00 \<in> set value then None
             else Some value)"

text \<open>\<open>SearchForm(data)\<close>: the one field \<open>query\<close>. The result is \<open>cleaned_data["query"]\<close>.\<close>

definition search_form_clean :: "(string \<rightharpoonup> string) \<Rightarrow> string option" where
  "search_form_clean data = char_field_clean (data ''query'')"

text \<open>
  \<open>CommentForm(data, post)\<close>: a model form over the fields \<open>name\<close> (at most 80
  characters), \<open>email\<close> (at most 254, and accepted by Django's \<open>EmailValidator\<close>, a
  parameter here) and \<open>body\<close>.
\<close>

definition comment_form_is_valid :: "(string \<Rightarrow> bool) \<Rightarrow> (string \<rightharpoonup> string) \<Rightarrow> bool" where
  "comment_form_is_valid validate_email data =
     (case (char_field_clean (data ''name''), char_field_clean (data ''email''),
            char_field_clean (data ''body'')) of
        (Some n, Some e, Some b) \<Rightarrow> length n \<le> 80 \<and> length e \<le> 254 \<and> validate_email e
      | _ \<Rightarrow> False)"

section \<open>Views (blog/views.py)\<close>

record request =
  http_method :: string
  GET :: "string \<rightharpoonup> string"
  POST :: "string \<rightharpoonup> string"
  is_ajax :: bool

record list_context =
  ctx_tag :: "tag option"
  ctx_date :: "datetime option"
  ctx_posts :: "post Page"
  ctx_query :: "string option"
  ctx_total_results :: nat

record detail_context =
  ctx_post :: post
  ctx_comments :: "comment list"
  ctx_new_comment :: "comment option"
  ctx_comment_form_bound :: bool
  ctx_similar_posts :: "post list"
  ctx_messages :: "string list"

datatype response =
    HttpResponse string
  | RenderListAjax "post Page"
  | RenderList list_context
  | RenderDetail detail_context

subsection \<open>post_list\<close>

text \<open>
  Lines 17 to 28, \<open># Filter posts by year and month\<close> and \<open># Filter posts by tag\<close>:
  the result is the queryset with the \<open>date\<close> and the \<open>tag\<close> of the context. The tagging
  table has a unique index on post and tag, so the join of \<open>filter(tags__in=[tag])\<close> has
  at most one row for each post. The year of the lookup \<open>publish__year=date.year\<close> is the
  year of a constructed date, so the bounds of that lookup can always be built.
\<close>

definition base_filter ::
  "database \<Rightarrow> datetime \<Rightarrow> string option \<Rightarrow> int option \<Rightarrow> int option
     \<Rightarrow> error + (post list \<times> datetime option \<times> tag option)" where
  "base_filter db now tag_slug_arg year month =
     (let ps = published now (posts db) in
      if truthy_int year \<and> truthy_int month then
        (case py_datetime (int_arg year) (int_arg month) 1 of
           Inl e \<Rightarrow> Inl e
         | Inr date \<Rightarrow>
             Inr (filter (\<lambda>p. dt_year (publish p) = dt_year date
                             \<and> dt_month (publish p) = dt_month date) ps,
                  Some date, None))
      else if truthy_str tag_slug_arg then
        (case get_object_or_404
                (filter (\<lambda>t. tag_slug t = str_arg tag_slug_arg) (all_tags db)) of
           Inl e \<Rightarrow> Inl e
         | Inr tg \<Rightarrow> Inr (filter (\<lambda>p. tag_id tg \<in> set (tags p)) ps, None, Some tg))
      else Inr (ps, None, None))"

text \<open>
  Lines 30 to 43, \<open># Filter posts by query\<close>. \<open>similarity title query\<close> is the database's
  \<open>TrigramSimilarity\<close>, a parameter. The result is the queryset and \<open>query\<close>.
\<close>

definition query_filter ::
  "(string \<Rightarrow> string \<Rightarrow> real) \<Rightarrow> request \<Rightarrow> post list \<Rightarrow> error + (post list \<times> string option)" where
  "query_filter similarity req ps =
     (if ''query'' \<in> dom (GET req) then
        (case search_form_clean (GET req) of
           Some query \<Rightarrow>
             Inr (order_by_desc (\<lambda>p. similarity (title p) query)
                    (filter (\<lambda>p. 1 / 10 < similarity (title p) query) ps),
                  Some query)
         | None \<Rightarrow> Inl Http404)
      else Inr (ps, None))"

text \<open>
  Lines 47 to 57, \<open># Pagination\<close>. \<open>Inr None\<close> is the early \<open>return HttpResponse("")\<close>. An
  exception raised inside a handler would leave the view.
\<close>

definition paginate :: "post list \<Rightarrow> request \<Rightarrow> error + post Page option" where
  "paginate ps req =
     (let pg = (case GET req ''page'' of None \<Rightarrow> PyNone | Some s \<Rightarrow> PyStr s) in
      case page 4 ps pg of
        Inr posts_page \<Rightarrow> Inr (Some posts_page)
      | Inl PageNotAnInteger \<Rightarrow>
          (case page 4 ps (PyInt 1) of
             Inl e \<Rightarrow> Inl e
           | Inr posts_page \<Rightarrow> Inr (Some posts_page))
      | Inl EmptyPage \<Rightarrow>
          if is_ajax req then Inr None
          else (case page 4 ps (PyInt (num_pages 4 ps)) of
                  Inl e \<Rightarrow> Inl e
                | Inr posts_page \<Rightarrow> Inr (Some posts_page))
      | Inl e \<Rightarrow> Inl e)"

text \<open>
  Lines 59 to 78: the fragment for an ajax request, else the full page with its context.
  The unbound or bound \<open>search_form\<close> of the context is not kept.
\<close>

definition render_page ::
  "tag option \<Rightarrow> datetime option \<Rightarrow> string option \<Rightarrow> nat \<Rightarrow> request \<Rightarrow> post Page
     \<Rightarrow> response" where
  "render_page tg date query total_results req posts_page =
     (if is_ajax req then RenderListAjax posts_page
      else RenderList
             \<lparr>ctx_tag = tg, ctx_date = date, ctx_posts = posts_page,
              ctx_query = query, ctx_total_results = total_results\<rparr>)"

text \<open>
  Lines 45 to 78: the count, the pagination and the rendering, for the queryset \<open>ps\<close>
  and the \<open>tag\<close>, \<open>date\<close> and \<open>query\<close> the filters have left.
\<close>

definition list_response ::
  "tag option \<Rightarrow> datetime option \<Rightarrow> string option \<Rightarrow> post list \<Rightarrow> request
     \<Rightarrow> error + response" where
  "list_response tg date query ps req =
     (let total_results = length ps in
      case paginate ps req of
        Inl e \<Rightarrow> Inl e
      | Inr None \<Rightarrow> Inr (HttpResponse [])
      | Inr (Some posts_page) \<Rightarrow>
          Inr (render_page tg date query total_results req posts_page))"

text \<open>
  The specification's page \<open>n\<close> of a sequence: the items from position \<open>4 (n - 1)\<close> on,
  at most four of them, with the page number and the number of pages.
\<close>

definition page_of :: "'a list \<Rightarrow> int \<Rightarrow> 'a Page" where
  "page_of xs n =
     \<lparr>object_list = take 4 (drop (4 * nat (n - 1)) xs),
      number = n,
      paginator_num_pages = num_pages 4 xs\<rparr>"

text \<open>The view: the three parts in the order of the source; a raise ends the request.\<close>

definition post_list ::
  "(string \<Rightarrow> string \<Rightarrow> real) \<Rightarrow> database \<Rightarrow> datetime \<Rightarrow> request
     \<Rightarrow> string option \<Rightarrow> int option \<Rightarrow> int option \<Rightarrow> error + response" where
  "post_list similarity db now req tag_slug_arg year month =
     (case base_filter db now tag_slug_arg year month of
        Inl e \<Rightarrow> Inl e
      | Inr (ps, date, tg) \<Rightarrow>
          (case query_filter similarity req ps of
             Inl e \<Rightarrow> Inl e
           | Inr (ranked, query) \<Rightarrow> list_response tg date query ranked req))"

text \<open>The total count a response reports: only the full page has one.\<close>

fun reported_total :: "response \<Rightarrow> nat option" where
  "reported_total (RenderList c) = Some (ctx_total_results c)"
| "reported_total r = None"

text \<open>The posts a response shows.\<close>

fun response_posts :: "response \<Rightarrow> post list" where
  "response_posts (HttpResponse s) = []"
| "response_posts (RenderListAjax pg) = object_list pg"
| "response_posts (RenderList c) = object_list (ctx_posts c)"
| "response_posts (RenderDetail c) = ctx_post c # ctx_similar_posts c"

subsection \<open>post_detail\<close>

text \<open>
  \<open>x.save()\<close> on the value of a variable that holds \<open>None\<close> or a \<open>Comment\<close>: on \<open>None\<close> the
  attribute lookup raises \<open>AttributeError\<close>; on a comment, \<open>Model.save\<close> writes the row.
\<close>

definition save :: "comment option \<Rightarrow> database \<Rightarrow> error + database" where
  "save x db =
     (case x of
        None \<Rightarrow> Inl AttributeError
      | Some c \<Rightarrow> Inr (db\<lparr>comments := c # comments db\<rparr>))"

text \<open>
  The view returns its outcome and the database it leaves. \<open>now\<close> is the clock reading
  of line 88 and \<open>now_similar\<close> the later one inside \<open>get_similar_posts\<close>. Lines 82 and 83
  build a redirect and drop it, which changes nothing. The lookup goes through the default
  manager \<open>Post.objects\<close>, the first one the class declares. To compile
  \<open>publish__year=year\<close> Django builds the first and the last instant of the year,
  \<open>datetime(year, 1, 1)\<close> and \<open>datetime(year, 12, 31, 23, 59, 59, 999999)\<close>, so a year the
  constructor refuses raises its error out of the lookup, before any row is read.
\<close>

definition post_detail ::
  "(string \<Rightarrow> bool) \<Rightarrow> database \<Rightarrow> datetime \<Rightarrow> datetime \<Rightarrow> request
     \<Rightarrow> int \<Rightarrow> int \<Rightarrow> int \<Rightarrow> string \<Rightarrow> (error + response) \<times> database" where
  "post_detail validate_email db now now_similar req year month day post_slug =
     (case year_lookup_bounds year of
        Inl e \<Rightarrow> (Inl e, db)
      | Inr bounds \<Rightarrow>
     (case get_object_or_404
             (filter (\<lambda>p. slug p = post_slug \<and> publish p \<le> now
                        \<and> dt_year (publish p) = year \<and> dt_month (publish p) = month
                        \<and> dt_day (publish p) = day) (posts db)) of
        Inl e \<Rightarrow> (Inl e, db)
      | Inr found \<Rightarrow>
          let similar_posts = get_similar_posts found now_similar (posts db);
              active_comments = get_active_comments found (comments db);
              new_comment = None;
              context = \<lparr>ctx_post = found, ctx_comments = active_comments,
                         ctx_new_comment = new_comment, ctx_comment_form_bound = False,
                         ctx_similar_posts = similar_posts, ctx_messages = []\<rparr>
          in
          if http_method req = ''POST'' then
            if comment_form_is_valid validate_email (POST req) then
              (case save new_comment db of
                 Inl e \<Rightarrow> (Inl e, db)
               | Inr db' \<Rightarrow>
                   (Inr (RenderDetail (context
                      \<lparr>ctx_comment_form_bound := True,
                       ctx_messages :=
                         [''Your comment has been successfully added to this post.'']\<rparr>)),
                    db'))
            else (Inr (RenderDetail (context\<lparr>ctx_comment_form_bound := True\<rparr>)), db)
          else (Inr (RenderDetail context), db)))"

section \<open>Example data\<close>

text \<open>
  The posts of the tests in blog/tests.py: a post with the tags foo and bar, two posts
  that share tags with it, a post dated in the future, and two more.
\<close>

definition ex_now :: datetime where
  "ex_now = (2020, 10, 5, 0)"

definition ex_post :: post where
  "ex_post = \<lparr>post_id = 1, title = ''Post'', slug = ''post'', author = 1, body = [],
               publish = (2020, 9, 5, 0), tags = [1, 2]\<rparr>"

definition ex_similar :: post where
  "ex_similar = \<lparr>post_id = 2, title = ''Similar Post'', slug = ''similar-post'', author = 1,
                  body = [], publish = (2020, 9, 4, 0), tags = [1]\<rparr>"

definition ex_more_similar :: post where
  "ex_more_similar = \<lparr>post_id = 3, title = ''More Similar Post'', slug = ''more-similar-post'',
                       author = 1, body = [], publish = (2020, 9, 3, 0), tags = [1, 2]\<rparr>"

definition ex_future :: post where
  "ex_future = \<lparr>post_id = 4, title = ''Future Post'', slug = ''future-post'', author = 1,
                 body = [], publish = (2020, 11, 4, 0), tags = [1, 2]\<rparr>"

definition ex_other :: post where
  "ex_other = \<lparr>post_id = 5, title = ''Other Post'', slug = ''other-post'', author = 1,
                body = [], publish = (2020, 8, 1, 0), tags = [3]\<rparr>"

definition ex_old :: post where
  "ex_old = \<lparr>post_id = 6, title = ''Old Post'', slug = ''old-post'', author = 1,
              body = [], publish = (2020, 8, 2, 0), tags = []\<rparr>"

definition ex_posts :: "post list" where
  "ex_posts = [ex_other, ex_future, ex_post, ex_old, ex_more_similar, ex_similar]"

definition ex_foo :: tag where
  "ex_foo = \<lparr>tag_id = 1, tag_name = ''foo'', tag_slug = ''foo''\<rparr>"

definition ex_db :: database where
  "ex_db = \<lparr>posts = ex_posts, comments = [],
            all_tags = [ex_foo,
                        \<lparr>tag_id = 2, tag_name = ''bar'', tag_slug = ''bar''\<rparr>,
                        \<lparr>tag_id = 3, tag_name = ''baz'', tag_slug = ''baz''\<rparr>]\<rparr>"

text \<open>
  A stand-in for the database's similarity: 1 for the title itself, a half for a title
  that ends with the query, else 0.
\<close>

definition ex_similarity :: "string \<Rightarrow> string \<Rightarrow> real" where
  "ex_similarity t q =
     (if t = q then 1 else if take (length q) (rev t) = rev q then 1 / 2 else 0)"

definition ex_request :: "(string \<rightharpoonup> string) \<Rightarrow> bool \<Rightarrow> request" where
  "ex_request params ajax =
     \<lparr>http_method = ''GET'', GET = params, POST = Map.empty, is_ajax = ajax\<rparr>"

text \<open>
  The comment of \<open>CommentFormTest.test_valid_data\<close>, posted to the detail view, and a
  stand-in for the email validator.
\<close>

definition ex_validate_email :: "string \<Rightarrow> bool" where
  "ex_validate_email e = (CHR ''@'' \<in> set e)"

definition ex_comment_request :: request where
  "ex_comment_request =
     \<lparr>http_method = ''POST'', GET = Map.empty,
      POST = [''name'' \<mapsto> ''User'', ''email'' \<mapsto> ''yourusername@example.com'',
              ''body'' \<mapsto> ''Lorem ipsum''],
      is_ajax = False\<rparr>"

section \<open>Properties\<close>

subsection \<open>Ordering and visibility\<close>

lemma set_order_by_desc: "set (order_by_desc k xs) = set xs"
  by (simp add: order_by_desc_def)

lemma length_order_by_desc: "length (order_by_desc k xs) = length xs"
  by (simp add: order_by_desc_def)

lemma sorted_order_by_desc: "sorted_wrt (\<lambda>a b. k b \<le> k a) (order_by_desc k xs)"
proof -
  have "sorted (map k (sort_key k xs))"
    by (rule sorted_sort_key)
  then have "sorted_wrt (\<lambda>a b. k a \<le> k b) (sort_key k xs)"
    by (simp add: sorted_map)
  then show ?thesis
    by (simp add: order_by_desc_def sorted_wrt_rev)
qed

lemma set_published: "set (published now ps) = {p \<in> set ps. publish p \<le> now}"
  by (simp add: published_def set_order_by_desc)

lemma same_tags_card:
  assumes "distinct (tags p)"
  shows "same_tags ids p = card (set (tags p) \<inter> set ids)"
proof -
  have "distinct (filter (\<lambda>t. t \<in> set ids) (tags p))"
    using assms by simp
  then have "length (filter (\<lambda>t. t \<in> set ids) (tags p))
      = card (set (filter (\<lambda>t. t \<in> set ids) (tags p)))"
    by (rule distinct_card [symmetric])
  moreover have "set (filter (\<lambda>t. t \<in> set ids) (tags p)) = set (tags p) \<inter> set ids"
    by auto
  ultimately show ?thesis
    by (simp add: same_tags_def)
qed

lemma same_tags_pos: "0 < same_tags ids p \<longleftrightarrow> set (tags p) \<inter> set ids \<noteq> {}"
proof -
  have "0 < same_tags ids p \<longleftrightarrow> filter (\<lambda>t. t \<in> set ids) (tags p) \<noteq> []"
    by (simp add: same_tags_def)
  also have "\<dots> \<longleftrightarrow> (\<exists>t \<in> set (tags p). t \<in> set ids)"
    by (simp add: filter_empty_conv)
  also have "\<dots> \<longleftrightarrow> set (tags p) \<inter> set ids \<noteq> {}"
    by auto
  finally show ?thesis .
qed

lemma similar_subset:
  "set (get_similar_posts self now ps)
     \<subseteq> {p \<in> set ps. publish p \<le> now \<and> 0 < same_tags (tags self) p \<and> post_id p \<noteq> post_id self}"
proof -
  have "set (get_similar_posts self now ps)
      \<subseteq> set (order_by_desc (\<lambda>p. (same_tags (tags self) p, publish p))
          (filter (\<lambda>p. post_id p \<noteq> post_id self)
            (filter (\<lambda>p. 0 < same_tags (tags self) p) (published now ps))))"
    unfolding get_similar_posts_def Let_def by (rule set_take_subset)
  then show ?thesis
    by (auto simp: set_order_by_desc set_published)
qed

subsection \<open>Similar posts\<close>

lemma length_similar: "length (get_similar_posts self now ps) \<le> 4"
  by (simp add: get_similar_posts_def Let_def)

lemma similar_sorted:
  "sorted_wrt (\<lambda>a b. (same_tags (tags self) b, publish b) \<le> (same_tags (tags self) a, publish a))
     (get_similar_posts self now ps)"
  unfolding get_similar_posts_def Let_def
  by (rule sorted_wrt_take) (rule sorted_order_by_desc)

text \<open>
  C3. For every reference post, \<open>get_similar_posts\<close> returns at most 4 posts; none of them
  is the reference post (none has its identifier), each shares at least one tag with it,
  and each is a post of the table whose publish timestamp is not after \<open>now\<close>. So a post
  with no shared tag is not in the result at all.
\<close>

theorem similar_posts_candidates:
  "length (get_similar_posts self now ps) \<le> 4 \<and>
   (\<forall>p \<in> set (get_similar_posts self now ps).
      post_id p \<noteq> post_id self \<and> p \<noteq> self \<and>
      set (tags p) \<inter> set (tags self) \<noteq> {} \<and>
      p \<in> set ps \<and> publish p \<le> now)"
proof -
  have "\<And>p. p \<in> set (get_similar_posts self now ps)
      \<Longrightarrow> post_id p \<noteq> post_id self \<and> p \<noteq> self
          \<and> set (tags p) \<inter> set (tags self) \<noteq> {} \<and> p \<in> set ps \<and> publish p \<le> now"
  proof -
    fix p assume "p \<in> set (get_similar_posts self now ps)"
    then have "p \<in> set ps" "publish p \<le> now" "0 < same_tags (tags self) p"
        "post_id p \<noteq> post_id self"
      using similar_subset [of self now ps] by auto
    then show "post_id p \<noteq> post_id self \<and> p \<noteq> self
          \<and> set (tags p) \<inter> set (tags self) \<noteq> {} \<and> p \<in> set ps \<and> publish p \<le> now"
      by (auto simp: same_tags_pos)
  qed
  then show ?thesis
    using length_similar by blast
qed

theorem similar_posts_candidates_witness:
  "get_similar_posts ex_post ex_now ex_posts = [ex_more_similar, ex_similar] \<and>
   post_id ex_similar \<noteq> post_id ex_post \<and>
   set (tags ex_similar) \<inter> set (tags ex_post) \<noteq> {} \<and>
   publish ex_similar \<le> ex_now \<and>
   ex_future \<notin> set (get_similar_posts ex_post ex_now ex_posts) \<and>
   ex_other \<notin> set (get_similar_posts ex_post ex_now ex_posts)"
proof -
  have ev: "get_similar_posts ex_post ex_now ex_posts = [ex_more_similar, ex_similar]"
    by code_simp
  have "ex_similar \<in> set (get_similar_posts ex_post ex_now ex_posts)"
    by (simp add: ev)
  with similar_posts_candidates [of ex_post ex_now ex_posts]
  have "post_id ex_similar \<noteq> post_id ex_post \<and>
      set (tags ex_similar) \<inter> set (tags ex_post) \<noteq> {} \<and> publish ex_similar \<le> ex_now"
    by blast
  moreover have "ex_future \<notin> set [ex_more_similar, ex_similar]"
    by code_simp
  moreover have "ex_other \<notin> set [ex_more_similar, ex_similar]"
    by code_simp
  ultimately show ?thesis
    by (simp add: ev)
qed


lemma similar_dominates:
  assumes c: "c \<in> set ps" "publish c \<le> now" "post_id c \<noteq> post_id self"
    and j: "j < length (get_similar_posts self now ps)"
    and more: "same_tags (tags self) (get_similar_posts self now ps ! j) < same_tags (tags self) c"
  shows "\<exists>i < j. get_similar_posts self now ps ! i = c"
proof -
  let ?k = "\<lambda>p. (same_tags (tags self) p, publish p)"
  let ?all = "order_by_desc ?k
          (filter (\<lambda>p. post_id p \<noteq> post_id self)
            (filter (\<lambda>p. 0 < same_tags (tags self) p) (published now ps)))"
  have rs: "get_similar_posts self now ps = take 4 ?all"
    by (simp add: get_similar_posts_def Let_def)
  have jall: "j < length ?all" "j < 4"
    using j by (simp_all add: rs)
  have nthj: "get_similar_posts self now ps ! j = ?all ! j"
    using jall by (simp add: rs)
  have "0 < same_tags (tags self) c"
    using more by simp
  then have "c \<in> set ?all"
    using c by (simp add: set_order_by_desc set_published)
  then obtain i where i: "i < length ?all" "?all ! i = c"
    by (auto simp: in_set_conv_nth)
  have srt: "sorted_wrt (\<lambda>a b. ?k b \<le> ?k a) ?all"
    by (rule sorted_order_by_desc)
  have "i < j"
  proof (rule ccontr)
    assume "\<not> i < j"
    then consider "i = j" | "j < i" by linarith
    then show False
    proof cases
      case 1
      with i nthj more show False by simp
    next
      case 2
      with srt i(1) have "?k (?all ! i) \<le> ?k (?all ! j)"
        by (simp add: sorted_wrt_iff_nth_less)
      with i(2) nthj more show False by auto
    qed
  qed
  moreover from this jall have "get_similar_posts self now ps ! i = ?all ! i"
    by (simp add: rs)
  ultimately show ?thesis
    using i(2) by auto
qed

text \<open>
  C2. When each post's tag rows are distinct (the tagging table's unique index), the count
  \<open>same_tags\<close> that \<open>get_similar_posts\<close> orders by is the number of tags the candidate
  shares with the reference post. Of two returned posts, the earlier one shares strictly
  more tags, or as many and is published no earlier. A candidate (visible, not the
  reference post) that shares strictly more tags than a returned post is itself returned,
  at an earlier position, whatever the publish timestamps are.
\<close>

theorem similar_posts_ranking:
  assumes uniq: "\<forall>p \<in> set ps. distinct (tags p)"
  shows "(\<forall>p \<in> set ps. same_tags (tags self) p = tag_overlap self p) \<and>
    (\<forall>i j. i < j \<and> j < length (get_similar_posts self now ps) \<longrightarrow>
       tag_overlap self (get_similar_posts self now ps ! j)
         < tag_overlap self (get_similar_posts self now ps ! i)
       \<or> (tag_overlap self (get_similar_posts self now ps ! j)
            = tag_overlap self (get_similar_posts self now ps ! i)
          \<and> publish (get_similar_posts self now ps ! j)
              \<le> publish (get_similar_posts self now ps ! i))) \<and>
    (\<forall>c j. c \<in> set ps \<and> publish c \<le> now \<and> post_id c \<noteq> post_id self
        \<and> j < length (get_similar_posts self now ps)
        \<and> tag_overlap self (get_similar_posts self now ps ! j) < tag_overlap self c
       \<longrightarrow> (\<exists>i < j. get_similar_posts self now ps ! i = c))"
proof -
  let ?rs = "get_similar_posts self now ps"
  let ?k = "\<lambda>p. (same_tags (tags self) p, publish p)"
  have score: "same_tags (tags self) p = tag_overlap self p" if "p \<in> set ps" for p
    using that uniq by (simp add: same_tags_card tag_overlap_def)
  have mem: "?rs ! i \<in> set ps" if "i < length ?rs" for i
    using that similar_subset [of self now ps] nth_mem [of i ?rs] by blast
  have ord: "?k (?rs ! j) \<le> ?k (?rs ! i)" if "i < j" "j < length ?rs" for i j
    using similar_sorted [of self now ps] that by (simp add: sorted_wrt_iff_nth_less)
  have pair: "tag_overlap self (?rs ! j) < tag_overlap self (?rs ! i)
       \<or> (tag_overlap self (?rs ! j) = tag_overlap self (?rs ! i)
          \<and> publish (?rs ! j) \<le> publish (?rs ! i))"
    if "i < j" "j < length ?rs" for i j
  proof -
    have "i < length ?rs" using that by simp
    then have "same_tags (tags self) (?rs ! i) = tag_overlap self (?rs ! i)"
        "same_tags (tags self) (?rs ! j) = tag_overlap self (?rs ! j)"
      using that mem score by simp_all
    with ord [OF that] show ?thesis
      by auto
  qed
  have above: "\<exists>i < j. ?rs ! i = c"
    if "c \<in> set ps" "publish c \<le> now" "post_id c \<noteq> post_id self" "j < length ?rs"
       "tag_overlap self (?rs ! j) < tag_overlap self c" for c j
  proof -
    have "same_tags (tags self) (?rs ! j) < same_tags (tags self) c"
      using that mem [of j] score by simp
    with that show ?thesis
      by (intro similar_dominates) simp_all
  qed
  show ?thesis
    using score pair above by blast
qed

theorem similar_posts_ranking_witness:
  "list_all (\<lambda>p. distinct (tags p)) ex_posts \<and>
   get_similar_posts ex_post ex_now ex_posts = [ex_more_similar, ex_similar] \<and>
   same_tags (tags ex_post) ex_more_similar = tag_overlap ex_post ex_more_similar \<and>
   tag_overlap ex_post ex_more_similar = 2 \<and> tag_overlap ex_post ex_similar = 1 \<and>
   publish ex_more_similar < publish ex_similar \<and>
   get_similar_posts ex_post ex_now ex_posts ! 0 = ex_more_similar"
proof -
  let ?rs = "get_similar_posts ex_post ex_now ex_posts"
  have uniq: "\<forall>p \<in> set ex_posts. distinct (tags p)"
    by code_simp
  note rank = similar_posts_ranking [OF uniq, of ex_post ex_now]
  have ev: "?rs = [ex_more_similar, ex_similar]"
    by code_simp
  have mem: "ex_more_similar \<in> set ex_posts"
    by (simp add: ex_posts_def)
  with rank have score: "same_tags (tags ex_post) ex_more_similar = tag_overlap ex_post ex_more_similar"
    by blast
  have all: "list_all (\<lambda>p. distinct (tags p)) ex_posts"
    using uniq by (simp add: list_all_iff)
  have o2: "tag_overlap ex_post ex_more_similar = 2" and o1: "tag_overlap ex_post ex_similar = 1"
    by code_simp+
  have older: "publish ex_more_similar < publish ex_similar"
    by code_simp
  have cand: "publish ex_more_similar \<le> ex_now" "post_id ex_more_similar \<noteq> post_id ex_post"
    by code_simp+
  have "1 < length ?rs" "tag_overlap ex_post (?rs ! 1) < tag_overlap ex_post ex_more_similar"
    by (simp_all add: ev o1 o2)
  with rank mem cand have "\<exists>i < 1. ?rs ! i = ex_more_similar"
    by blast
  then have first: "?rs ! 0 = ex_more_similar"
    by simp
  from all ev score o2 o1 older first show ?thesis
    by simp
qed

subsection \<open>Pagination\<close>

lemma num_pages_4: "num_pages 4 xs = max 1 ((int (length xs) + 3) div 4)"
  by (simp add: num_pages_def max_def) presburger

lemma num_pages_ge1: "1 \<le> num_pages 4 xs"
  by (simp add: num_pages_4)

lemma validate_in_range:
  "1 \<le> n \<Longrightarrow> n \<le> num_pages 4 xs \<Longrightarrow> validate_number 4 xs (PyInt n) = Inr n"
  by (simp add: validate_number_def)

lemma slice_nat:
  "drop (4 * m) (take (if length xs \<le> 4 * m + 4 then length xs else 4 * m + 4) xs)
     = take 4 (drop (4 * m) xs)"
proof (cases "length xs \<le> 4 * m + 4")
  case True
  then have "take 4 (drop (4 * m) xs) = drop (4 * m) xs"
    by simp
  with True show ?thesis by simp
next
  case False
  then show ?thesis
    by (simp add: drop_take)
qed

lemma page_in_range:
  assumes "1 \<le> n" "n \<le> num_pages 4 xs"
  shows "page 4 xs (PyInt n) = Inr (page_of xs n)"
proof -
  define m where "m = nat (n - 1)"
  have n: "n = int m + 1"
    using assms(1) by (simp add: m_def)
  have bottom: "nat ((n - 1) * int 4) = 4 * m"
    by (simp add: n)
  have top: "nat ((n - 1) * int 4 + int 4) = 4 * m + 4"
    by (simp add: n nat_add_distrib nat_mult_distrib)
  have cmp: "((n - 1) * int 4 + int 4 \<ge> int (length xs)) = (length xs \<le> 4 * m + 4)"
    by (auto simp add: n)
  have "page 4 xs (PyInt n) =
      Inr \<lparr>object_list =
              drop (4 * m) (take (if length xs \<le> 4 * m + 4 then length xs else 4 * m + 4) xs),
            number = n, paginator_num_pages = num_pages 4 xs\<rparr>"
    unfolding page_def validate_in_range [OF assms] Let_def
    by (simp only: sum.case bottom top cmp nat_int if_distrib [of nat] cong: if_cong)
  then show ?thesis
    by (simp only: slice_nat page_of_def m_def)
qed

lemma page_str: "py_int s = Some n \<Longrightarrow> page 4 xs (PyStr s) = page 4 xs (PyInt n)"
  by (simp add: page_def validate_number_def)

lemma page_not_int:
  "to_int v = None \<Longrightarrow> page 4 xs v = Inl PageNotAnInteger"
  by (simp add: page_def validate_number_def)

lemma page_below: "n < 1 \<Longrightarrow> page 4 xs (PyInt n) = Inl EmptyPage"
  by (simp add: page_def validate_number_def)

lemma page_above: "num_pages 4 xs < n \<Longrightarrow> page 4 xs (PyInt n) = Inl EmptyPage"
  using num_pages_ge1 [of xs] by (simp add: page_def validate_number_def)

lemma paginate_absent:
  assumes "GET req ''page'' = None \<or> (\<exists>s. GET req ''page'' = Some s \<and> py_int s = None)"
  shows "paginate ps req = Inr (Some (page_of ps 1))"
proof -
  have one: "page 4 ps (PyInt 1) = Inr (page_of ps 1)"
    using num_pages_ge1 [of ps] by (simp add: page_in_range)
  from assms show ?thesis
  proof
    assume "GET req ''page'' = None"
    then show ?thesis
      by (simp add: paginate_def page_not_int one)
  next
    assume "\<exists>s. GET req ''page'' = Some s \<and> py_int s = None"
    then obtain s where "GET req ''page'' = Some s" "py_int s = None" by blast
    then show ?thesis
      by (simp add: paginate_def page_not_int one)
  qed
qed

lemma paginate_in_range:
  assumes "GET req ''page'' = Some s" "py_int s = Some n" "1 \<le> n" "n \<le> num_pages 4 ps"
  shows "paginate ps req = Inr (Some (page_of ps n))"
  using assms by (simp add: paginate_def page_str page_in_range)

lemma paginate_out_of_range:
  assumes "GET req ''page'' = Some s" "py_int s = Some n" "n < 1 \<or> num_pages 4 ps < n"
  shows "paginate ps req
         = (if is_ajax req then Inr None else Inr (Some (page_of ps (num_pages 4 ps))))"
proof -
  have "page 4 ps (PyInt n) = Inl EmptyPage"
    using assms(3) page_below page_above by blast
  moreover have "page 4 ps (PyInt (num_pages 4 ps)) = Inr (page_of ps (num_pages 4 ps))"
    using num_pages_ge1 [of ps] by (simp add: page_in_range)
  ultimately show ?thesis
    using assms(1,2) by (simp add: paginate_def page_str)
qed

text \<open>
  C4. For every queryset and page token, with four posts to a page: an absent token, or
  one that \<open>int\<close> rejects, gives page 1; a number from 1 to the number of pages gives that
  page; a number beyond the last page gives the empty \<open>HttpResponse("")\<close> to an ajax
  request and the last page to any other request. The number of pages is
  \<open>max(1, ceil(count / 4))\<close>.
\<close>

theorem pagination_cases:
  "(GET req ''page'' = None \<or> (\<exists>s. GET req ''page'' = Some s \<and> py_int s = None)
      \<longrightarrow> list_response tg date query ps req
          = Inr (render_page tg date query (length ps) req (page_of ps 1))) \<and>
   (\<forall>s n. GET req ''page'' = Some s \<and> py_int s = Some n \<and> 1 \<le> n \<and> n \<le> num_pages 4 ps
      \<longrightarrow> list_response tg date query ps req
          = Inr (render_page tg date query (length ps) req (page_of ps n))) \<and>
   (\<forall>s n. GET req ''page'' = Some s \<and> py_int s = Some n \<and> num_pages 4 ps < n
      \<longrightarrow> list_response tg date query ps req
          = (if is_ajax req then Inr (HttpResponse [])
             else Inr (render_page tg date query (length ps) req
                         (page_of ps (num_pages 4 ps))))) \<and>
   num_pages 4 ps = max 1 ((int (length ps) + 3) div 4)"
proof -
  have a: "list_response tg date query ps req
      = Inr (render_page tg date query (length ps) req (page_of ps 1))"
    if "GET req ''page'' = None \<or> (\<exists>s. GET req ''page'' = Some s \<and> py_int s = None)"
    using paginate_absent [OF that] by (simp add: list_response_def)
  have b: "list_response tg date query ps req
      = Inr (render_page tg date query (length ps) req (page_of ps n))"
    if "GET req ''page'' = Some s" "py_int s = Some n" "1 \<le> n" "n \<le> num_pages 4 ps" for s n
    using paginate_in_range [OF that] by (simp add: list_response_def)
  have c: "list_response tg date query ps req
      = (if is_ajax req then Inr (HttpResponse [])
         else Inr (render_page tg date query (length ps) req (page_of ps (num_pages 4 ps))))"
    if "GET req ''page'' = Some s" "py_int s = Some n" "num_pages 4 ps < n" for s n
    using paginate_out_of_range [of req s n ps] that by (simp add: list_response_def)
  show ?thesis
    using a b c num_pages_4 [of ps] by blast
qed

theorem pagination_cases_witness:
  "py_int [CHR 0x1F, CHR ''2''] = None \<and>
   list_response None None None (published ex_now ex_posts)
       (ex_request [''page'' \<mapsto> [CHR 0x1F, CHR ''2'']] False)
     = Inr (RenderList \<lparr>ctx_tag = None, ctx_date = None,
              ctx_posts = \<lparr>object_list = [ex_post, ex_similar, ex_more_similar, ex_old],
                           number = 1, paginator_num_pages = 2\<rparr>,
              ctx_query = None, ctx_total_results = 5\<rparr>) \<and>
   list_response None None None (published ex_now ex_posts) (ex_request [''page'' \<mapsto> ''abc''] False)
     = Inr (RenderList \<lparr>ctx_tag = None, ctx_date = None,
              ctx_posts = \<lparr>object_list = [ex_post, ex_similar, ex_more_similar, ex_old],
                           number = 1, paginator_num_pages = 2\<rparr>,
              ctx_query = None, ctx_total_results = 5\<rparr>) \<and>
   list_response None None None (published ex_now ex_posts) (ex_request [''page'' \<mapsto> ''2''] False)
     = Inr (RenderList \<lparr>ctx_tag = None, ctx_date = None,
              ctx_posts = \<lparr>object_list = [ex_other], number = 2, paginator_num_pages = 2\<rparr>,
              ctx_query = None, ctx_total_results = 5\<rparr>) \<and>
   list_response None None None (published ex_now ex_posts) (ex_request [''page'' \<mapsto> ''3''] False)
     = Inr (RenderList \<lparr>ctx_tag = None, ctx_date = None,
              ctx_posts = \<lparr>object_list = [ex_other], number = 2, paginator_num_pages = 2\<rparr>,
              ctx_query = None, ctx_total_results = 5\<rparr>) \<and>
   list_response None None None (published ex_now ex_posts) (ex_request [''page'' \<mapsto> ''3''] True)
     = Inr (HttpResponse [])"
proof -
  let ?ps = "published ex_now ex_posts"
  have ps: "?ps = [ex_post, ex_similar, ex_more_similar, ex_old, ex_other]"
    by code_simp
  have np: "num_pages 4 ?ps = 2"
    by code_simp
  have abc: "py_int ''abc'' = None" and two: "py_int ''2'' = Some 2"
    and three: "py_int ''3'' = Some 3"
    by code_simp+
  have p1: "page_of ?ps 1 = \<lparr>object_list = [ex_post, ex_similar, ex_more_similar, ex_old],
                           number = 1, paginator_num_pages = 2\<rparr>"
    by (simp add: page_of_def np) (simp add: ps)
  have p2: "page_of ?ps 2 = \<lparr>object_list = [ex_other], number = 2, paginator_num_pages = 2\<rparr>"
    by (simp add: page_of_def np) (simp add: ps)
  note inst = pagination_cases [of _ None None None ?ps]
  have "list_response None None None ?ps (ex_request [''page'' \<mapsto> ''abc''] False)
      = Inr (render_page None None None (length ?ps) (ex_request [''page'' \<mapsto> ''abc''] False)
               (page_of ?ps 1))"
    using inst [of "ex_request [''page'' \<mapsto> ''abc''] False"] abc
    by (simp add: ex_request_def)
  moreover have "list_response None None None ?ps (ex_request [''page'' \<mapsto> ''2''] False)
      = Inr (render_page None None None (length ?ps) (ex_request [''page'' \<mapsto> ''2''] False)
               (page_of ?ps 2))"
    using inst [of "ex_request [''page'' \<mapsto> ''2''] False"] two np
    by (simp add: ex_request_def)
  moreover have "list_response None None None ?ps (ex_request [''page'' \<mapsto> ''3''] False)
      = Inr (render_page None None None (length ?ps) (ex_request [''page'' \<mapsto> ''3''] False)
               (page_of ?ps 2))"
    using inst [of "ex_request [''page'' \<mapsto> ''3''] False"] three np
    by (simp add: ex_request_def)
  moreover have "list_response None None None ?ps (ex_request [''page'' \<mapsto> ''3''] True)
      = Inr (HttpResponse [])"
    using inst [of "ex_request [''page'' \<mapsto> ''3''] True"] three np
    by (simp add: ex_request_def)
  moreover have "length ?ps = 5"
    by (simp add: ps)
  moreover have sep: "py_int [CHR 0x1F, CHR ''2''] = None"
    by code_simp
  moreover have "list_response None None None ?ps
        (ex_request [''page'' \<mapsto> [CHR 0x1F, CHR ''2'']] False)
      = Inr (render_page None None None (length ?ps)
               (ex_request [''page'' \<mapsto> [CHR 0x1F, CHR ''2'']] False) (page_of ?ps 1))"
    using inst [of "ex_request [''page'' \<mapsto> [CHR 0x1F, CHR ''2'']] False"] sep
    by (simp add: ex_request_def)
  ultimately show ?thesis
    by (simp add: p1 p2 render_page_def ex_request_def)
qed

lemma page_of_last_not_first:
  assumes "4 < length ps"
  shows "page_of ps (num_pages 4 ps) \<noteq> page_of ps 1"
proof -
  have "1 < num_pages 4 ps"
    using assms by (simp add: num_pages_4)
  then have "number (page_of ps (num_pages 4 ps)) \<noteq> number (page_of ps 1)"
    by (simp add: page_of_def)
  then show ?thesis
    by auto
qed

text \<open>
  C9. A page token that \<open>int\<close> reads as a number below 1 (such as \<open>"0"\<close> or \<open>"-1"\<close>) is
  out of range, not a non-number: for every queryset the paginator reaches, an ajax request
  gets the empty \<open>HttpResponse("")\<close> and any other request the last page, which is not
  page 1 when there are more than four posts. So does every listing request whose filters
  raise nothing.
\<close>

theorem page_below_one:
  assumes "GET req ''page'' = Some s" and "py_int s = Some n" and "n < 1"
  shows "list_response tg date query ps req
           = (if is_ajax req then Inr (HttpResponse [])
              else Inr (render_page tg date query (length ps) req
                          (page_of ps (num_pages 4 ps)))) \<and>
         (4 < length ps \<longrightarrow> page_of ps (num_pages 4 ps) \<noteq> page_of ps 1) \<and>
         (\<forall>ps0 ranked.
            base_filter db now tag_slug_arg year month = Inr (ps0, date, tg)
            \<and> query_filter similarity req ps0 = Inr (ranked, query)
            \<longrightarrow> post_list similarity db now req tag_slug_arg year month
                = (if is_ajax req then Inr (HttpResponse [])
                   else Inr (render_page tg date query (length ranked) req
                               (page_of ranked (num_pages 4 ranked)))))"
proof -
  have resp: "list_response tg date query qs req
      = (if is_ajax req then Inr (HttpResponse [])
         else Inr (render_page tg date query (length qs) req (page_of qs (num_pages 4 qs))))"
    for qs
    using paginate_out_of_range [of req s n qs] assms by (simp add: list_response_def)
  have "post_list similarity db now req tag_slug_arg year month
      = (if is_ajax req then Inr (HttpResponse [])
         else Inr (render_page tg date query (length ranked) req
                     (page_of ranked (num_pages 4 ranked))))"
    if "base_filter db now tag_slug_arg year month = Inr (ps0, date, tg)"
       "query_filter similarity req ps0 = Inr (ranked, query)" for ps0 ranked
    using that resp [of ranked] by (simp add: post_list_def)
  then show ?thesis
    using resp [of ps] page_of_last_not_first [of ps] by blast
qed

theorem page_below_one_witness:
  "py_int ''0'' = Some 0 \<and> py_int ''-1'' = Some (- 1) \<and> py_int '' 0 '' = Some 0 \<and>
   py_int [CHR 0x1C, CHR ''0''] = None \<and>
   post_list ex_similarity ex_db ex_now (ex_request [''page'' \<mapsto> ''0''] False) None None None
     = Inr (RenderList \<lparr>ctx_tag = None, ctx_date = None,
              ctx_posts = \<lparr>object_list = [ex_other], number = 2, paginator_num_pages = 2\<rparr>,
              ctx_query = None, ctx_total_results = 5\<rparr>) \<and>
   post_list ex_similarity ex_db ex_now (ex_request [''page'' \<mapsto> ''-1''] True) None None None
     = Inr (HttpResponse [])"
proof -
  let ?ps = "published ex_now ex_posts"
  have ps: "?ps = [ex_post, ex_similar, ex_more_similar, ex_old, ex_other]"
    by code_simp
  have np: "num_pages 4 ?ps = 2"
    by code_simp
  have zero: "py_int ''0'' = Some 0" and minus: "py_int ''-1'' = Some (- 1)"
    by code_simp+
  have p2: "page_of ?ps 2 = \<lparr>object_list = [ex_other], number = 2, paginator_num_pages = 2\<rparr>"
    by (simp add: page_of_def np) (simp add: ps)
  have base: "base_filter ex_db ex_now None None None = Inr (?ps, None, None)"
    by (simp add: base_filter_def truthy_int_def truthy_str_def ex_db_def)
  have q: "query_filter ex_similarity (ex_request [''page'' \<mapsto> s] ajax) ?ps = Inr (?ps, None)"
    for s ajax
    by (simp add: query_filter_def ex_request_def)
  have "post_list ex_similarity ex_db ex_now (ex_request [''page'' \<mapsto> ''0''] False)
          None None None
      = Inr (render_page None None None (length ?ps) (ex_request [''page'' \<mapsto> ''0''] False)
               (page_of ?ps (num_pages 4 ?ps)))"
    using page_below_one [where req = "ex_request [''page'' \<mapsto> ''0''] False" and s = "''0''"
        and n = 0 and db = ex_db and now = ex_now and tag_slug_arg = None and year = None
        and month = None and date = None and tg = None and similarity = ex_similarity
        and query = None] zero base q
    by (simp add: ex_request_def)
  moreover have "post_list ex_similarity ex_db ex_now (ex_request [''page'' \<mapsto> ''-1''] True)
          None None None = Inr (HttpResponse [])"
    using page_below_one [where req = "ex_request [''page'' \<mapsto> ''-1''] True" and s = "''-1''"
        and n = "- 1" and db = ex_db and now = ex_now and tag_slug_arg = None and year = None
        and month = None and date = None and tg = None and similarity = ex_similarity
        and query = None] minus base q
    by (simp add: ex_request_def)
  moreover have "length ?ps = 5"
    by (simp add: ps)
  moreover have "py_int '' 0 '' = Some 0" "py_int [CHR 0x1C, CHR ''0''] = None"
    by code_simp+
  ultimately show ?thesis
    using zero minus by (simp add: np p2 render_page_def ex_request_def)
qed

subsection \<open>The filters of post_list\<close>

lemma py_datetime_first:
  "1 \<le> y \<Longrightarrow> y \<le> 9999 \<Longrightarrow> 1 \<le> m \<Longrightarrow> m \<le> 12 \<Longrightarrow> py_datetime y m 1 = Inr (y, m, 1, 0)"
  by (simp add: py_datetime_def days_in_month_def fits_c_int_def)

lemma py_datetime_bad_month:
  "m < 1 \<or> 12 < m \<Longrightarrow>
     py_datetime y m 1
       = Inl (if fits_c_int y \<and> fits_c_int m then ValueError else OverflowError)"
  by (auto simp: py_datetime_def fits_c_int_def)

lemma get_object_or_404_none: "get_object_or_404 [] = Inl Http404"
  by (simp add: get_object_or_404_def)

lemma get_object_or_404_one: "get_object_or_404 [x] = Inr x"
  by (simp add: get_object_or_404_def)

lemma base_filter_forms:
  assumes "base_filter db now tag_slug_arg year month = Inr (ps, date, tg)"
  shows "(\<exists>d. date = Some d \<and> tg = None
            \<and> ps = filter (\<lambda>p. dt_year (publish p) = dt_year d
                               \<and> dt_month (publish p) = dt_month d)
                     (published now (posts db)))
       \<or> (\<exists>t. date = None \<and> tg = Some t
            \<and> ps = filter (\<lambda>p. tag_id t \<in> set (tags p)) (published now (posts db)))
       \<or> (date = None \<and> tg = None \<and> ps = published now (posts db))"
  using assms
  by (auto simp: base_filter_def Let_def split: if_splits sum.splits)

lemma base_filter_truthy:
  assumes "year = Some y" "month = Some m" "y \<noteq> 0" "m \<noteq> 0"
  shows "base_filter db now tag_slug_arg year month
     = (case py_datetime y m 1 of
          Inl e \<Rightarrow> Inl e
        | Inr date \<Rightarrow>
            Inr (filter (\<lambda>p. dt_year (publish p) = dt_year date
                            \<and> dt_month (publish p) = dt_month date)
                   (published now (posts db)), Some date, None))"
proof -
  have "truthy_int year" "truthy_int month" "int_arg year = y" "int_arg month = m"
    using assms by (auto simp: truthy_int_def int_arg_def)
  then show ?thesis
    by (simp add: base_filter_def Let_def)
qed

text \<open>
  C6, as amended. The base filter of a listing request goes by priority. When year and
  month are both given and both non-zero, the first day of that month is constructed and
  the result is the published posts of that month, whatever the tag slug is: the slug is
  not resolved. (When the date cannot be constructed its error ends the request.)
  Otherwise, when a non-empty tag slug is given, the slug is resolved: no tag with that
  slug is \<open>Http404\<close>, and the one tag with that slug restricts the result to the published
  posts that carry it. In every request that raises nothing the result is the published
  posts under the month filter alone, under the tag filter alone, or under neither: the
  two filters are never both applied.
\<close>

theorem base_filter_priority:
  "(\<forall>y m. year = Some y \<and> month = Some m \<and> y \<noteq> 0 \<and> m \<noteq> 0
      \<longrightarrow> (1 \<le> y \<and> y \<le> 9999 \<and> 1 \<le> m \<and> m \<le> 12
             \<longrightarrow> base_filter db now tag_slug_arg year month
                 = Inr (filter (\<lambda>p. dt_year (publish p) = y \<and> dt_month (publish p) = m)
                          (published now (posts db)),
                        Some (y, m, 1, 0), None))
        \<and> (\<forall>e. py_datetime y m 1 = Inl e
             \<longrightarrow> base_filter db now tag_slug_arg year month = Inl e)) \<and>
   (\<forall>s. (year = None \<or> year = Some 0 \<or> month = None \<or> month = Some 0)
        \<and> tag_slug_arg = Some s \<and> s \<noteq> []
      \<longrightarrow> ((\<forall>t \<in> set (all_tags db). tag_slug t \<noteq> s)
             \<longrightarrow> base_filter db now tag_slug_arg year month = Inl Http404)
        \<and> (\<forall>t. filter (\<lambda>t. tag_slug t = s) (all_tags db) = [t]
             \<longrightarrow> base_filter db now tag_slug_arg year month
                 = Inr (filter (\<lambda>p. tag_id t \<in> set (tags p)) (published now (posts db)),
                        None, Some t))) \<and>
   ((year = None \<or> year = Some 0 \<or> month = None \<or> month = Some 0)
        \<and> (tag_slug_arg = None \<or> tag_slug_arg = Some [])
      \<longrightarrow> base_filter db now tag_slug_arg year month
          = Inr (published now (posts db), None, None)) \<and>
   (\<forall>ps date tg. base_filter db now tag_slug_arg year month = Inr (ps, date, tg)
      \<longrightarrow> (\<exists>d. date = Some d \<and> tg = None
               \<and> ps = filter (\<lambda>p. dt_year (publish p) = dt_year d
                                  \<and> dt_month (publish p) = dt_month d)
                        (published now (posts db)))
        \<or> (\<exists>t. date = None \<and> tg = Some t
               \<and> ps = filter (\<lambda>p. tag_id t \<in> set (tags p)) (published now (posts db)))
        \<or> (date = None \<and> tg = None \<and> ps = published now (posts db)))"
proof -
  have a1: "base_filter db now tag_slug_arg year month
      = Inr (filter (\<lambda>p. dt_year (publish p) = y \<and> dt_month (publish p) = m)
               (published now (posts db)), Some (y, m, 1, 0), None)"
    if "year = Some y" "month = Some m" "y \<noteq> 0" "m \<noteq> 0"
       "1 \<le> y" "y \<le> 9999" "1 \<le> m" "m \<le> 12" for y m
    using base_filter_truthy [OF that(1-4), of db now tag_slug_arg]
      py_datetime_first [OF that(5-8)]
    by (simp add: dt_year_def dt_month_def)
  have a2: "base_filter db now tag_slug_arg year month = Inl e"
    if "year = Some y" "month = Some m" "y \<noteq> 0" "m \<noteq> 0" "py_datetime y m 1 = Inl e"
    for y m e
    using base_filter_truthy [OF that(1-4), of db now tag_slug_arg] that(5)
    by simp
  have else_branch: "\<not> (truthy_int year \<and> truthy_int month)"
    if "year = None \<or> year = Some 0 \<or> month = None \<or> month = Some 0"
    using that by (auto simp: truthy_int_def)
  have b1: "base_filter db now tag_slug_arg year month = Inl Http404"
    if "year = None \<or> year = Some 0 \<or> month = None \<or> month = Some 0"
       "tag_slug_arg = Some s" "s \<noteq> []"
       "\<forall>t \<in> set (all_tags db). tag_slug t \<noteq> s" for s
  proof -
    have "filter (\<lambda>t. tag_slug t = s) (all_tags db) = []"
      using that(4) by (simp add: filter_empty_conv)
    then show ?thesis
      using else_branch [OF that(1)] that(2,3)
      by (auto simp: base_filter_def Let_def truthy_str_def str_arg_def get_object_or_404_none)
  qed
  have b2: "base_filter db now tag_slug_arg year month
      = Inr (filter (\<lambda>p. tag_id t \<in> set (tags p)) (published now (posts db)), None, Some t)"
    if "year = None \<or> year = Some 0 \<or> month = None \<or> month = Some 0"
       "tag_slug_arg = Some s" "s \<noteq> []"
       "filter (\<lambda>t. tag_slug t = s) (all_tags db) = [t]" for s t
    using else_branch [OF that(1)] that(2,3,4)
    by (auto simp: base_filter_def Let_def truthy_str_def str_arg_def get_object_or_404_one)
  have c: "base_filter db now tag_slug_arg year month = Inr (published now (posts db), None, None)"
    if "year = None \<or> year = Some 0 \<or> month = None \<or> month = Some 0"
       "tag_slug_arg = None \<or> tag_slug_arg = Some []"
    using else_branch [OF that(1)] that(2)
    by (auto simp: base_filter_def Let_def truthy_str_def)
  show ?thesis
    using a1 a2 b1 b2 c base_filter_forms [of db now tag_slug_arg year month] by blast
qed

theorem base_filter_priority_witness:
  "base_filter ex_db ex_now (Some ''foo'') (Some 2020) (Some 8)
     = Inr ([ex_old, ex_other], Some (2020, 8, 1, 0), None) \<and>
   base_filter ex_db ex_now (Some ''foo'') (Some 2020) (Some 13) = Inl ValueError \<and>
   base_filter ex_db ex_now (Some ''foo'') None None
     = Inr ([ex_post, ex_similar, ex_more_similar], None, Some ex_foo) \<and>
   base_filter ex_db ex_now (Some ''qux'') None None = Inl Http404 \<and>
   base_filter ex_db ex_now None None None
     = Inr ([ex_post, ex_similar, ex_more_similar, ex_old, ex_other], None, None)"
proof -
  have pub: "published ex_now (posts ex_db) = [ex_post, ex_similar, ex_more_similar, ex_old, ex_other]"
    by code_simp
  have aug: "filter (\<lambda>p. dt_year (publish p) = 2020 \<and> dt_month (publish p) = 8)
      [ex_post, ex_similar, ex_more_similar, ex_old, ex_other] = [ex_old, ex_other]"
    by code_simp
  have foo: "filter (\<lambda>t. tag_slug t = ''foo'') (all_tags ex_db) = [ex_foo]"
    by code_simp
  have tagged: "filter (\<lambda>p. tag_id ex_foo \<in> set (tags p))
      [ex_post, ex_similar, ex_more_similar, ex_old, ex_other]
      = [ex_post, ex_similar, ex_more_similar]"
    by code_simp
  have none: "\<forall>t \<in> set (all_tags ex_db). tag_slug t \<noteq> ''qux''"
    by code_simp
  have bad: "py_datetime 2020 13 1 = Inl ValueError"
    by code_simp
  have "base_filter ex_db ex_now (Some ''foo'') (Some 2020) (Some 8)
      = Inr (filter (\<lambda>p. dt_year (publish p) = 2020 \<and> dt_month (publish p) = 8)
               (published ex_now (posts ex_db)), Some (2020, 8, 1, 0), None)"
    using base_filter_priority [of "Some 2020" "Some 8" ex_db ex_now "Some ''foo''"]
    by simp
  then have m: "base_filter ex_db ex_now (Some ''foo'') (Some 2020) (Some 8)
      = Inr ([ex_old, ex_other], Some (2020, 8, 1, 0), None)"
    by (simp only: pub aug)
  have e: "base_filter ex_db ex_now (Some ''foo'') (Some 2020) (Some 13) = Inl ValueError"
    using base_filter_priority [of "Some 2020" "Some 13" ex_db ex_now "Some ''foo''"] bad
    by simp
  have "base_filter ex_db ex_now (Some ''foo'') None None
      = Inr (filter (\<lambda>p. tag_id ex_foo \<in> set (tags p)) (published ex_now (posts ex_db)),
             None, Some ex_foo)"
    using base_filter_priority [of None None ex_db ex_now "Some ''foo''"] foo
    by simp
  then have t: "base_filter ex_db ex_now (Some ''foo'') None None
      = Inr ([ex_post, ex_similar, ex_more_similar], None, Some ex_foo)"
    by (simp only: pub tagged)
  have q: "base_filter ex_db ex_now (Some ''qux'') None None = Inl Http404"
    using base_filter_priority [of None None ex_db ex_now "Some ''qux''"] none
    by simp
  have "base_filter ex_db ex_now None None None
      = Inr (published ex_now (posts ex_db), None, None)"
    using base_filter_priority [of None None ex_db ex_now None]
    by simp
  then have u: "base_filter ex_db ex_now None None None
      = Inr ([ex_post, ex_similar, ex_more_similar, ex_old, ex_other], None, None)"
    by (simp only: pub)
  from m e t q u show ?thesis
    by simp
qed

text \<open>
  C6 as stated fails where year and month are given but one of them is 0, which the URL
  pattern admits: \<open>year and month\<close> is false there and no month filter is applied. The
  request \<open>/archive/0/9/\<close> gets every published post, those of August among them.
\<close>

theorem archive_year_zero_unfiltered:
  "base_filter ex_db ex_now None (Some 0) (Some 9)
     = Inr ([ex_post, ex_similar, ex_more_similar, ex_old, ex_other], None, None) \<and>
   dt_month (publish ex_old) = 8"
  by code_simp

lemma base_filter_bad_month:
  assumes "year = Some y" "month = Some m" "y \<noteq> 0" "m \<noteq> 0" "m < 1 \<or> 12 < m"
  shows "base_filter db now tag_slug_arg year month
     = Inl (if fits_c_int y \<and> fits_c_int m then ValueError else OverflowError)"
  using base_filter_truthy [OF assms(1-4), of db now tag_slug_arg]
    py_datetime_bad_month [OF assms(5), of y]
  by simp

text \<open>
  C10, as amended. For every archive request whose year and month are both given and both
  non-zero (so that the test \<open>year and month\<close> holds) and whose month is outside 1 to 12,
  the listing raises an error while it constructs the first day of the month, and nothing
  catches it: the request returns no response. The error is \<open>ValueError\<close> when year and
  month fit a C integer and \<open>OverflowError\<close> when one of them does not.
\<close>

theorem archive_month_out_of_range:
  assumes "year = Some y" and "month = Some m" and "y \<noteq> 0" and "m \<noteq> 0"
    and "m < 1 \<or> 12 < m"
  shows "\<exists>e. py_datetime y m 1 = Inl e
           \<and> base_filter db now tag_slug_arg year month = Inl e
           \<and> post_list similarity db now req tag_slug_arg year month = Inl e
           \<and> e = (if fits_c_int y \<and> fits_c_int m then ValueError else OverflowError)"
  using base_filter_bad_month [OF assms, of db now tag_slug_arg]
    py_datetime_bad_month [OF assms(5), of y]
  by (simp add: post_list_def)

theorem archive_month_out_of_range_witness:
  "post_list ex_similarity ex_db ex_now (ex_request Map.empty False) None (Some 2020) (Some 13)
     = Inl ValueError \<and>
   post_list ex_similarity ex_db ex_now (ex_request Map.empty False) None (Some 2020)
       (Some 4294967296)
     = Inl OverflowError"
proof -
  have "post_list ex_similarity ex_db ex_now (ex_request Map.empty False) None (Some 2020)
      (Some 13) = Inl ValueError"
    using archive_month_out_of_range [of "Some 2020" 2020 "Some 13" 13 ex_db ex_now None
        ex_similarity "ex_request Map.empty False"]
    by (simp add: fits_c_int_def)
  moreover have "post_list ex_similarity ex_db ex_now (ex_request Map.empty False) None
      (Some 2020) (Some 4294967296) = Inl OverflowError"
    using archive_month_out_of_range [of "Some 2020" 2020 "Some 4294967296" 4294967296 ex_db
        ex_now None ex_similarity "ex_request Map.empty False"]
    by (simp add: fits_c_int_def)
  ultimately show ?thesis
    by simp
qed

text \<open>
  C10 as stated fails for the month 0, which the URL pattern admits and which is outside
  1 to 12: \<open>year and month\<close> is false there, no date is constructed, and the request
  \<open>/archive/2020/0/\<close> is answered with the first page of all published posts.
\<close>

theorem archive_month_zero:
  "post_list ex_similarity ex_db ex_now (ex_request Map.empty False) None (Some 2020) (Some 0)
     = Inr (RenderList \<lparr>ctx_tag = None, ctx_date = None,
              ctx_posts = \<lparr>object_list = [ex_post, ex_similar, ex_more_similar, ex_old],
                           number = 1, paginator_num_pages = 2\<rparr>,
              ctx_query = None, ctx_total_results = 5\<rparr>)"
  by code_simp

lemma search_form_empty: "data ''query'' = Some [] \<Longrightarrow> search_form_clean data = None"
  by (simp add: search_form_clean_def char_field_clean_def py_strip_def)

lemma query_filter_invalid:
  "''query'' \<in> dom (GET req) \<Longrightarrow> search_form_clean (GET req) = None
     \<Longrightarrow> query_filter similarity req ps = Inl Http404"
  by (simp add: query_filter_def)

lemma query_filter_valid:
  "''query'' \<in> dom (GET req) \<Longrightarrow> search_form_clean (GET req) = Some q
     \<Longrightarrow> query_filter similarity req ps
         = Inr (order_by_desc (\<lambda>p. similarity (title p) q)
                  (filter (\<lambda>p. 1 / 10 < similarity (title p) q) ps), Some q)"
  by (simp add: query_filter_def)

text \<open>
  C7, as amended. Take a listing request with a \<open>query\<close> parameter whose base filter
  raises nothing. When the search form does not validate, which the empty string never
  does, the request fails with the client error \<open>Http404\<close> and returns no response: the
  query step raises it for every queryset. When the form validates to \<open>q\<close>, the query
  step keeps and orders the posts by their similarity to \<open>q\<close>, and the request goes on
  with that queryset. (With or without an error of the base filter, no request with an
  invalid query returns a response.)
\<close>

theorem invalid_query_fails:
  assumes present: "''query'' \<in> dom (GET req)"
  shows "(search_form_clean (GET req) = None \<longrightarrow>
            (\<forall>ps. query_filter similarity req ps = Inl Http404)
          \<and> (\<forall>ps date tg. base_filter db now tag_slug_arg year month = Inr (ps, date, tg)
                \<longrightarrow> post_list similarity db now req tag_slug_arg year month = Inl Http404)
          \<and> (\<exists>e. post_list similarity db now req tag_slug_arg year month = Inl e)) \<and>
         (GET req ''query'' = Some [] \<longrightarrow> search_form_clean (GET req) = None) \<and>
         (\<forall>q. search_form_clean (GET req) = Some q \<longrightarrow>
            (\<forall>ps. query_filter similarity req ps
                 = Inr (order_by_desc (\<lambda>p. similarity (title p) q)
                          (filter (\<lambda>p. 1 / 10 < similarity (title p) q) ps), Some q))
          \<and> (\<forall>ps date tg. base_filter db now tag_slug_arg year month = Inr (ps, date, tg)
                \<longrightarrow> post_list similarity db now req tag_slug_arg year month
                    = list_response tg date (Some q)
                        (order_by_desc (\<lambda>p. similarity (title p) q)
                          (filter (\<lambda>p. 1 / 10 < similarity (title p) q) ps)) req))"
proof -
  have inv: "query_filter similarity req ps = Inl Http404"
    if "search_form_clean (GET req) = None" for ps
    using present that by (rule query_filter_invalid)
  have inv_req: "post_list similarity db now req tag_slug_arg year month = Inl Http404"
    if "search_form_clean (GET req) = None"
       "base_filter db now tag_slug_arg year month = Inr (ps, date, tg)" for ps date tg
    using that inv [OF that(1), of ps] by (simp add: post_list_def)
  have fails: "\<exists>e. post_list similarity db now req tag_slug_arg year month = Inl e"
    if "search_form_clean (GET req) = None"
  proof (cases "base_filter db now tag_slug_arg year month")
    case (Inl e)
    then show ?thesis by (simp add: post_list_def)
  next
    case (Inr r)
    obtain ps date tg where "r = (ps, date, tg)"
      by (cases r) auto
    with Inr inv_req [OF that] show ?thesis by blast
  qed
  have val: "query_filter similarity req ps
      = Inr (order_by_desc (\<lambda>p. similarity (title p) q)
               (filter (\<lambda>p. 1 / 10 < similarity (title p) q) ps), Some q)"
    if "search_form_clean (GET req) = Some q" for q ps
    using present that by (rule query_filter_valid)
  have val_req: "post_list similarity db now req tag_slug_arg year month
      = list_response tg date (Some q)
          (order_by_desc (\<lambda>p. similarity (title p) q)
            (filter (\<lambda>p. 1 / 10 < similarity (title p) q) ps)) req"
    if "search_form_clean (GET req) = Some q"
       "base_filter db now tag_slug_arg year month = Inr (ps, date, tg)" for q ps date tg
    using that val [OF that(1), of ps] by (simp add: post_list_def)
  show ?thesis
    using inv inv_req fails val val_req search_form_empty [of "GET req"] by blast
qed

theorem invalid_query_fails_witness:
  "post_list ex_similarity ex_db ex_now (ex_request [''query'' \<mapsto> ''''] False) None None None
     = Inl Http404 \<and>
   post_list ex_similarity ex_db ex_now (ex_request [''query'' \<mapsto> ''  ''] True)
       (Some ''foo'') None None
     = Inl Http404 \<and>
   post_list ex_similarity ex_db ex_now (ex_request [''query'' \<mapsto> '' Similar Post ''] False)
       None None None
     = Inr (RenderList \<lparr>ctx_tag = None, ctx_date = None,
              ctx_posts = \<lparr>object_list = [ex_similar, ex_more_similar], number = 1,
                           paginator_num_pages = 1\<rparr>,
              ctx_query = Some ''Similar Post'', ctx_total_results = 2\<rparr>)"
proof -
  have pub: "published ex_now (posts ex_db) = [ex_post, ex_similar, ex_more_similar, ex_old, ex_other]"
    by code_simp
  have base: "base_filter ex_db ex_now None None None
      = Inr ([ex_post, ex_similar, ex_more_similar, ex_old, ex_other], None, None)"
    by code_simp
  have base_foo: "base_filter ex_db ex_now (Some ''foo'') None None
      = Inr ([ex_post, ex_similar, ex_more_similar], None, Some ex_foo)"
    by code_simp
  have e1: "search_form_clean [''query'' \<mapsto> ''''] = None"
    and e2: "search_form_clean [''query'' \<mapsto> ''  ''] = None"
    and e3: "search_form_clean [''query'' \<mapsto> '' Similar Post ''] = Some ''Similar Post''"
    by (simp_all add: search_form_clean_def char_field_clean_def py_strip_def is_space_def)
  have "post_list ex_similarity ex_db ex_now (ex_request [''query'' \<mapsto> ''''] False)
      None None None = Inl Http404"
    using invalid_query_fails [of "ex_request [''query'' \<mapsto> ''''] False" ex_similarity
        ex_db ex_now None None None] e1 base
    by (simp add: ex_request_def)
  moreover have "post_list ex_similarity ex_db ex_now (ex_request [''query'' \<mapsto> ''  ''] True)
      (Some ''foo'') None None = Inl Http404"
    using invalid_query_fails [of "ex_request [''query'' \<mapsto> ''  ''] True" ex_similarity
        ex_db ex_now "Some ''foo''" None None] e2 base_foo
    by (simp add: ex_request_def)
  moreover have "post_list ex_similarity ex_db ex_now
      (ex_request [''query'' \<mapsto> '' Similar Post ''] False) None None None
      = list_response None None (Some ''Similar Post'')
          (order_by_desc (\<lambda>p. ex_similarity (title p) ''Similar Post'')
            (filter (\<lambda>p. 1 / 10 < ex_similarity (title p) ''Similar Post'')
               [ex_post, ex_similar, ex_more_similar, ex_old, ex_other]))
          (ex_request [''query'' \<mapsto> '' Similar Post ''] False)"
    using invalid_query_fails [of "ex_request [''query'' \<mapsto> '' Similar Post ''] False" ex_similarity
        ex_db ex_now None None None] e3 base
    by (simp add: ex_request_def)
  moreover have "list_response None None (Some ''Similar Post'')
          (order_by_desc (\<lambda>p. ex_similarity (title p) ''Similar Post'')
            (filter (\<lambda>p. 1 / 10 < ex_similarity (title p) ''Similar Post'')
               [ex_post, ex_similar, ex_more_similar, ex_old, ex_other]))
          (ex_request [''query'' \<mapsto> '' Similar Post ''] False)
      = Inr (RenderList \<lparr>ctx_tag = None, ctx_date = None,
              ctx_posts = \<lparr>object_list = [ex_similar, ex_more_similar], number = 1,
                           paginator_num_pages = 1\<rparr>,
              ctx_query = Some ''Similar Post'', ctx_total_results = 2\<rparr>)"
    by code_simp
  ultimately show ?thesis
    by simp
qed

text \<open>
  C7 as stated fails where the base filter raises first: for \<open>/archive/2020/13/?query=\<close>
  the query is present and invalid, but line 23 raises \<open>ValueError\<close> before the form is
  looked at, and an uncaught \<open>ValueError\<close> is a server error, not the client error
  \<open>Http404\<close>.
\<close>

theorem invalid_query_after_bad_month:
  "search_form_clean (GET (ex_request [''query'' \<mapsto> ''''] False)) = None \<and>
   post_list ex_similarity ex_db ex_now (ex_request [''query'' \<mapsto> ''''] False)
       None (Some 2020) (Some 13)
     = Inl ValueError"
  by code_simp

subsection \<open>The similarity ranker and the response\<close>

lemma mset_order_by_desc: "mset (order_by_desc k xs) = mset xs"
  by (simp add: order_by_desc_def)

lemma paginate_forms:
  "paginate ps req = Inr None \<or> (\<exists>n. paginate ps req = Inr (Some (page_of ps n)))"
proof (cases "GET req ''page''")
  case None
  then show ?thesis
    using paginate_absent [of req ps] by auto
next
  case (Some s)
  show ?thesis
  proof (cases "py_int s")
    case None
    with Some show ?thesis
      using paginate_absent [of req ps] by auto
  next
    case (Some n)
    note n = this
    show ?thesis
    proof (cases "1 \<le> n \<and> n \<le> num_pages 4 ps")
      case True
      with \<open>GET req ''page'' = Some s\<close> n show ?thesis
        using paginate_in_range [of req s n ps] by auto
    next
      case False
      then have "n < 1 \<or> num_pages 4 ps < n" by auto
      with \<open>GET req ''page'' = Some s\<close> n show ?thesis
        using paginate_out_of_range [of req s n ps] by auto
    qed
  qed
qed

lemma paginate_full_page:
  assumes "\<not> is_ajax req"
  shows "\<exists>n. paginate ps req = Inr (Some (page_of ps n))"
proof (cases "GET req ''page''")
  case None
  then show ?thesis
    using paginate_absent [of req ps] by auto
next
  case (Some s)
  show ?thesis
  proof (cases "py_int s")
    case None
    with Some show ?thesis
      using paginate_absent [of req ps] by auto
  next
    case (Some n)
    note n = this
    show ?thesis
    proof (cases "1 \<le> n \<and> n \<le> num_pages 4 ps")
      case True
      with \<open>GET req ''page'' = Some s\<close> n show ?thesis
        using paginate_in_range [of req s n ps] by auto
    next
      case False
      then have "n < 1 \<or> num_pages 4 ps < n" by auto
      with \<open>GET req ''page'' = Some s\<close> n assms show ?thesis
        using paginate_out_of_range [of req s n ps] by auto
    qed
  qed
qed

lemma set_page_of: "set (object_list (page_of xs n)) \<subseteq> set xs"
proof -
  have "set (take 4 (drop (4 * nat (n - 1)) xs)) \<subseteq> set (drop (4 * nat (n - 1)) xs)"
    by (rule set_take_subset)
  also have "\<dots> \<subseteq> set xs"
    by (rule set_drop_subset)
  finally show ?thesis
    by (simp add: page_of_def)
qed

lemma list_response_forms:
  "list_response tg date query ps req = Inr (HttpResponse [])
   \<or> (\<exists>n. list_response tg date query ps req
            = Inr (render_page tg date query (length ps) req (page_of ps n)))"
  using paginate_forms [of ps req] by (auto simp: list_response_def)

lemma list_response_full_page:
  assumes "\<not> is_ajax req"
  shows "\<exists>n. list_response tg date query ps req
            = Inr (RenderList \<lparr>ctx_tag = tg, ctx_date = date, ctx_posts = page_of ps n,
                     ctx_query = query, ctx_total_results = length ps\<rparr>)"
proof -
  obtain n where "paginate ps req = Inr (Some (page_of ps n))"
    using paginate_full_page [OF assms, of ps] by auto
  then show ?thesis
    using assms by (auto simp: list_response_def render_page_def)
qed

lemma response_posts_render:
  "response_posts (render_page tg date query cnt req pg) = object_list pg"
  by (simp add: render_page_def)

lemma list_response_posts:
  assumes "list_response tg date query ps req = Inr r"
  shows "set (response_posts r) \<subseteq> set ps"
proof -
  consider "r = HttpResponse []"
    | n where "r = render_page tg date query (length ps) req (page_of ps n)"
    using assms list_response_forms [of tg date query ps req] by auto
  then show ?thesis
  proof cases
    case 1
    then show ?thesis by simp
  next
    case 2
    then show ?thesis
      using set_page_of [of ps n] by (simp add: response_posts_render)
  qed
qed

lemma list_response_empty:
  assumes "\<not> is_ajax req"
  shows "list_response tg date query [] req
     = Inr (RenderList \<lparr>ctx_tag = tg, ctx_date = date,
              ctx_posts = \<lparr>object_list = [], number = 1, paginator_num_pages = 1\<rparr>,
              ctx_query = query, ctx_total_results = 0\<rparr>)"
proof -
  have np: "num_pages 4 ([] :: post list) = 1"
    by (simp add: num_pages_4)
  have pg: "page_of ([] :: post list) n
      = \<lparr>object_list = [], number = n, paginator_num_pages = 1\<rparr>" for n
    by (simp add: page_of_def np)
  have "paginate [] req = Inr (Some (page_of [] 1))"
  proof (cases "GET req ''page''")
    case None
    then show ?thesis
      using paginate_absent [of req "[]"] by auto
  next
    case (Some s)
    show ?thesis
    proof (cases "py_int s")
      case None
      with Some show ?thesis
        using paginate_absent [of req "[]"] by auto
    next
      case (Some n)
      note n = this
      show ?thesis
      proof (cases "n = 1")
        case True
        with \<open>GET req ''page'' = Some s\<close> n show ?thesis
          using paginate_in_range [of req s n "[]"] by (simp add: np)
      next
        case False
        then have "n < 1 \<or> num_pages 4 ([] :: post list) < n"
          by (auto simp: np)
        with \<open>GET req ''page'' = Some s\<close> n assms show ?thesis
          using paginate_out_of_range [of req s n "[]"] by (simp add: np)
      qed
    qed
  qed
  then show ?thesis
    using assms by (simp add: list_response_def render_page_def pg)
qed

text \<open>
  C5, as amended. For every valid query \<open>q\<close> and every queryset, the query step returns
  exactly the posts whose title's similarity to \<open>q\<close> is strictly above 0.1 (each as often
  as in the queryset), in descending order of similarity. A response shows posts of that
  result only. On a full-page request the response reports \<open>total_results\<close>, the length of
  the whole result, whatever page is shown; the response to an ajax request reports no
  count. When no post is above 0.1 the result is empty and the request is answered (not
  failed) with no posts; the full page then reports 0 results.
\<close>

theorem similarity_ranker:
  assumes present: "''query'' \<in> dom (GET req)"
    and valid: "search_form_clean (GET req) = Some q"
  shows "\<exists>ranked.
      query_filter similarity req ps = Inr (ranked, Some q)
    \<and> mset ranked = mset (filter (\<lambda>p. 1 / 10 < similarity (title p) q) ps)
    \<and> sorted_wrt (\<lambda>a b. similarity (title b) q \<le> similarity (title a) q) ranked
    \<and> (\<forall>r. list_response tg date (Some q) ranked req = Inr r
          \<longrightarrow> set (response_posts r) \<subseteq> set ranked)
    \<and> (\<not> is_ajax req \<longrightarrow>
         (\<exists>n. list_response tg date (Some q) ranked req
                = Inr (RenderList \<lparr>ctx_tag = tg, ctx_date = date, ctx_posts = page_of ranked n,
                         ctx_query = Some q, ctx_total_results = length ranked\<rparr>))
       \<and> (\<exists>r. list_response tg date (Some q) ranked req = Inr r
              \<and> reported_total r = Some (length ranked)))
    \<and> (is_ajax req \<longrightarrow>
         (\<exists>r. list_response tg date (Some q) ranked req = Inr r \<and> reported_total r = None))
    \<and> ((\<forall>p \<in> set ps. similarity (title p) q \<le> 1 / 10) \<longrightarrow>
         ranked = []
       \<and> (\<exists>r. list_response tg date (Some q) ranked req = Inr r \<and> response_posts r = [])
       \<and> (\<not> is_ajax req \<longrightarrow>
            list_response tg date (Some q) ranked req
              = Inr (RenderList \<lparr>ctx_tag = tg, ctx_date = date,
                       ctx_posts = \<lparr>object_list = [], number = 1, paginator_num_pages = 1\<rparr>,
                       ctx_query = Some q, ctx_total_results = 0\<rparr>)))"
proof -
  let ?kept = "filter (\<lambda>p. 1 / 10 < similarity (title p) q) ps"
  let ?ranked = "order_by_desc (\<lambda>p. similarity (title p) q) ?kept"
  have q: "query_filter similarity req ps = Inr (?ranked, Some q)"
    using present valid by (rule query_filter_valid)
  have m: "mset ?ranked = mset ?kept"
    by (rule mset_order_by_desc)
  have s: "sorted_wrt (\<lambda>a b. similarity (title b) q \<le> similarity (title a) q) ?ranked"
    by (rule sorted_order_by_desc)
  have sub: "set (response_posts r) \<subseteq> set ?ranked"
    if "list_response tg date (Some q) ?ranked req = Inr r" for r
    using that by (rule list_response_posts)
  have full: "\<exists>n. list_response tg date (Some q) ?ranked req
      = Inr (RenderList \<lparr>ctx_tag = tg, ctx_date = date, ctx_posts = page_of ?ranked n,
               ctx_query = Some q, ctx_total_results = length ?ranked\<rparr>)"
    if "\<not> is_ajax req"
    using that by (rule list_response_full_page)
  have total: "\<exists>r. list_response tg date (Some q) ?ranked req = Inr r
      \<and> reported_total r = Some (length ?ranked)"
    if "\<not> is_ajax req"
    using full [OF that] by auto
  have ajax: "\<exists>r. list_response tg date (Some q) ?ranked req = Inr r
      \<and> reported_total r = None"
    if "is_ajax req"
    using that list_response_forms [of tg date "Some q" ?ranked req]
    by (auto simp: render_page_def)
  have zero: "?ranked = []
      \<and> (\<exists>r. list_response tg date (Some q) ?ranked req = Inr r \<and> response_posts r = [])
      \<and> (\<not> is_ajax req \<longrightarrow>
            list_response tg date (Some q) ?ranked req
              = Inr (RenderList \<lparr>ctx_tag = tg, ctx_date = date,
                       ctx_posts = \<lparr>object_list = [], number = 1, paginator_num_pages = 1\<rparr>,
                       ctx_query = Some q, ctx_total_results = 0\<rparr>))"
    if none: "\<forall>p \<in> set ps. similarity (title p) q \<le> 1 / 10"
  proof -
    have "?kept = []"
      using none by (auto simp: filter_empty_conv)
    then have e: "?ranked = []"
      by (simp add: order_by_desc_def)
    have "\<exists>r. list_response tg date (Some q) [] req = Inr r \<and> set (response_posts r) \<subseteq> {}"
      using list_response_forms [of tg date "Some q" "[]" req]
        list_response_posts [of tg date "Some q" "[]" req]
      by auto
    then have r: "\<exists>r. list_response tg date (Some q) [] req = Inr r \<and> response_posts r = []"
      by simp
    from e r list_response_empty [of req tg date "Some q"] show ?thesis
      by simp
  qed
  show ?thesis
    using q m s sub full total ajax zero by blast
qed

theorem similarity_ranker_witness:
  "query_filter ex_similarity (ex_request [''query'' \<mapsto> ''qwe''] False)
       [ex_post, ex_similar, ex_more_similar, ex_old, ex_other]
     = Inr ([], Some ''qwe'') \<and>
   list_response None None (Some ''qwe'') [] (ex_request [''query'' \<mapsto> ''qwe''] False)
     = Inr (RenderList \<lparr>ctx_tag = None, ctx_date = None,
              ctx_posts = \<lparr>object_list = [], number = 1, paginator_num_pages = 1\<rparr>,
              ctx_query = Some ''qwe'', ctx_total_results = 0\<rparr>) \<and>
   query_filter ex_similarity (ex_request [''query'' \<mapsto> ''Similar Post''] False)
       [ex_post, ex_similar, ex_more_similar, ex_old, ex_other]
     = Inr ([ex_similar, ex_more_similar], Some ''Similar Post'') \<and>
   ex_similarity (title ex_similar) ''Similar Post'' = 1 \<and>
   ex_similarity (title ex_more_similar) ''Similar Post'' = 1 / 2"
proof -
  let ?ps = "[ex_post, ex_similar, ex_more_similar, ex_old, ex_other]"
  let ?req = "ex_request [''query'' \<mapsto> ''qwe''] False"
  have present: "''query'' \<in> dom (GET ?req)"
    by (simp add: ex_request_def)
  have valid: "search_form_clean (GET ?req) = Some ''qwe''"
    by (simp add: ex_request_def search_form_clean_def char_field_clean_def py_strip_def
        is_space_def)
  have none: "\<forall>p \<in> set ?ps. ex_similarity (title p) ''qwe'' \<le> 1 / 10"
    by code_simp
  have ajax: "\<not> is_ajax ?req"
    by (simp add: ex_request_def)
  from similarity_ranker [OF present valid, of ex_similarity ?ps None None]
  obtain ranked where r: "query_filter ex_similarity ?req ?ps = Inr (ranked, Some ''qwe'')"
    and z: "(\<forall>p \<in> set ?ps. ex_similarity (title p) ''qwe'' \<le> 1 / 10) \<longrightarrow>
         ranked = []
       \<and> (\<exists>r. list_response None None (Some ''qwe'') ranked ?req = Inr r \<and> response_posts r = [])
       \<and> (\<not> is_ajax ?req \<longrightarrow>
            list_response None None (Some ''qwe'') ranked ?req
              = Inr (RenderList \<lparr>ctx_tag = None, ctx_date = None,
                       ctx_posts = \<lparr>object_list = [], number = 1, paginator_num_pages = 1\<rparr>,
                       ctx_query = Some ''qwe'', ctx_total_results = 0\<rparr>))"
    by blast
  from z none ajax have e: "ranked = []"
    and l: "list_response None None (Some ''qwe'') ranked ?req
              = Inr (RenderList \<lparr>ctx_tag = None, ctx_date = None,
                       ctx_posts = \<lparr>object_list = [], number = 1, paginator_num_pages = 1\<rparr>,
                       ctx_query = Some ''qwe'', ctx_total_results = 0\<rparr>)"
    by blast+
  have two: "query_filter ex_similarity (ex_request [''query'' \<mapsto> ''Similar Post''] False) ?ps
     = Inr ([ex_similar, ex_more_similar], Some ''Similar Post'')"
    by code_simp
  have s1: "ex_similarity (title ex_similar) ''Similar Post'' = 1"
    and s2: "ex_similarity (title ex_more_similar) ''Similar Post'' = 1 / 2"
    by code_simp+
  from r l two s1 s2 show ?thesis
    by (simp only: e simp_thms)
qed

text \<open>
  C5 as stated fails for an ajax request: the search for \<open>Similar Post\<close> has two matching
  posts, and the response to the ajax request is the fragment with the page of posts
  alone, which reports no total count.
\<close>

theorem ajax_search_reports_no_total:
  "post_list ex_similarity ex_db ex_now (ex_request [''query'' \<mapsto> ''Similar Post''] True)
       None None None
     = Inr (RenderListAjax \<lparr>object_list = [ex_similar, ex_more_similar], number = 1,
                             paginator_num_pages = 1\<rparr>) \<and>
   reported_total (RenderListAjax \<lparr>object_list = [ex_similar, ex_more_similar], number = 1,
                                    paginator_num_pages = 1\<rparr>) = None"
  by code_simp

subsection \<open>Visibility on every read path\<close>

lemma base_filter_published:
  assumes "base_filter db now tag_slug_arg year month = Inr (ps, date, tg)"
  shows "set ps \<subseteq> set (published now (posts db))"
  using base_filter_forms [OF assms] by auto

lemma query_filter_subset:
  assumes "query_filter similarity req ps = Inr (ranked, query)"
  shows "set ranked \<subseteq> set ps"
  using assms
  by (auto simp: query_filter_def set_order_by_desc split: if_splits option.splits)

lemma post_list_visible:
  assumes "post_list similarity db now req tag_slug_arg year month = Inr r"
    and "p \<in> set (response_posts r)"
  shows "p \<in> set (posts db) \<and> publish p \<le> now"
proof -
  from assms(1) obtain ps date tg ranked query
    where b: "base_filter db now tag_slug_arg year month = Inr (ps, date, tg)"
      and q: "query_filter similarity req ps = Inr (ranked, query)"
      and l: "list_response tg date query ranked req = Inr r"
    by (auto simp: post_list_def split: sum.splits)
  have "p \<in> set ranked"
    using list_response_posts [OF l] assms(2) by auto
  then have "p \<in> set (published now (posts db))"
    using query_filter_subset [OF q] base_filter_published [OF b] by auto
  then show ?thesis
    by (simp add: set_published)
qed

lemma get_object_or_404_mem: "get_object_or_404 xs = Inr x \<Longrightarrow> x \<in> set xs"
  by (auto simp: get_object_or_404_def split: list.splits)

lemma post_detail_context:
  assumes "fst (post_detail validate_email db now now_similar req year month day post_slug) = Inr r"
  shows "\<exists>c. r = RenderDetail c
      \<and> ctx_post c \<in> set (posts db) \<and> publish (ctx_post c) \<le> now
      \<and> slug (ctx_post c) = post_slug
      \<and> ctx_similar_posts c = get_similar_posts (ctx_post c) now_similar (posts db)"
proof -
  let ?matches = "filter (\<lambda>p. slug p = post_slug \<and> publish p \<le> now
      \<and> dt_year (publish p) = year \<and> dt_month (publish p) = month
      \<and> dt_day (publish p) = day) (posts db)"
  from assms obtain bounds where b: "year_lookup_bounds year = Inr bounds"
    by (cases "year_lookup_bounds year") (auto simp: post_detail_def)
  from assms b obtain found where f: "get_object_or_404 ?matches = Inr found"
    by (cases "get_object_or_404 ?matches") (auto simp: post_detail_def)
  have "found \<in> set ?matches"
    using f by (rule get_object_or_404_mem)
  then have "found \<in> set (posts db)" "publish found \<le> now" "slug found = post_slug"
    by auto
  moreover from assms b f have "\<exists>c. r = RenderDetail c \<and> ctx_post c = found
      \<and> ctx_similar_posts c = get_similar_posts found now_similar (posts db)"
    by (auto simp: post_detail_def Let_def save_def split: if_splits)
  ultimately show ?thesis
    by auto
qed

text \<open>
  C1. On every read path a post is shown only if its publish timestamp is not after the
  clock reading of the query. Every post in a response of the listing view (the main
  list, a tag list, an archive list, each with or without a search) is a post of the
  table with \<open>publish \<le> now\<close>; so is every post that \<open>get_similar_posts\<close> returns; and a
  response of the detail view shows a post with \<open>publish \<le> now\<close> and similar posts with
  \<open>publish \<le> now_similar\<close>, the clock reading of that query. A post dated after \<open>now\<close> is in
  none of them.
\<close>

theorem future_posts_invisible:
  "(\<forall>r. post_list similarity db now req tag_slug_arg year month = Inr r
      \<longrightarrow> (\<forall>p \<in> set (response_posts r). p \<in> set (posts db) \<and> publish p \<le> now)) \<and>
   (\<forall>p \<in> set (get_similar_posts self now (posts db)). publish p \<le> now) \<and>
   (\<forall>r. fst (post_detail validate_email db now now_similar req y m d post_slug) = Inr r
      \<longrightarrow> (\<exists>c. r = RenderDetail c \<and> publish (ctx_post c) \<le> now
             \<and> (\<forall>p \<in> set (ctx_similar_posts c). publish p \<le> now_similar))) \<and>
   (\<forall>p. now < publish p \<longrightarrow>
      (\<forall>r. post_list similarity db now req tag_slug_arg year month = Inr r
           \<longrightarrow> p \<notin> set (response_posts r))
    \<and> p \<notin> set (get_similar_posts self now (posts db))
    \<and> (\<forall>c. fst (post_detail validate_email db now now_similar req y m d post_slug)
              = Inr (RenderDetail c) \<longrightarrow> ctx_post c \<noteq> p))"
proof -
  have a: "p \<in> set (posts db) \<and> publish p \<le> now"
    if "post_list similarity db now req tag_slug_arg year month = Inr r"
       "p \<in> set (response_posts r)" for r p
    using that by (rule post_list_visible)
  have b: "publish p \<le> now" if "p \<in> set (get_similar_posts self now (posts db))" for p
    using that similar_subset [of self now "posts db"] by auto
  have c: "\<exists>c. r = RenderDetail c \<and> publish (ctx_post c) \<le> now
             \<and> (\<forall>p \<in> set (ctx_similar_posts c). publish p \<le> now_similar)"
    if "fst (post_detail validate_email db now now_similar req y m d post_slug) = Inr r" for r
  proof -
    from post_detail_context [OF that] obtain c where c: "r = RenderDetail c"
        "publish (ctx_post c) \<le> now"
        "ctx_similar_posts c = get_similar_posts (ctx_post c) now_similar (posts db)"
      by auto
    have "\<forall>p \<in> set (ctx_similar_posts c). publish p \<le> now_similar"
      using similar_subset [of "ctx_post c" now_similar "posts db"] c(3) by auto
    with c show ?thesis by auto
  qed
  have d1: "p \<notin> set (response_posts r)"
    if "now < publish p" "post_list similarity db now req tag_slug_arg year month = Inr r"
    for p r
    using a [OF that(2), of p] that(1) by auto
  have d2: "p \<notin> set (get_similar_posts self now (posts db))" if "now < publish p" for p
    using b [of p] that by auto
  have d3: "ctx_post c \<noteq> p"
    if "now < publish p"
       "fst (post_detail validate_email db now now_similar req y m d post_slug)
          = Inr (RenderDetail c)" for p c
    using c [OF that(2)] that(1) by auto
  show ?thesis
    using a b c d1 d2 d3 by blast
qed

theorem future_posts_invisible_witness:
  "post_list ex_similarity ex_db ex_now (ex_request Map.empty False) None None None
     = Inr (RenderList \<lparr>ctx_tag = None, ctx_date = None,
              ctx_posts = \<lparr>object_list = [ex_post, ex_similar, ex_more_similar, ex_old],
                           number = 1, paginator_num_pages = 2\<rparr>,
              ctx_query = None, ctx_total_results = 5\<rparr>) \<and>
   publish ex_old \<le> ex_now \<and>
   ex_now < publish ex_future \<and>
   ex_future \<in> set (posts ex_db) \<and>
   ex_future \<notin> set (get_similar_posts ex_post ex_now (posts ex_db)) \<and>
   fst (post_detail ex_validate_email ex_db ex_now ex_now (ex_request Map.empty False)
          2020 11 4 ''future-post'') = Inl Http404 \<and>
   fst (post_detail ex_validate_email ex_db ex_now ex_now (ex_request Map.empty False)
          2020 9 5 ''post'')
     = Inr (RenderDetail \<lparr>ctx_post = ex_post, ctx_comments = [], ctx_new_comment = None,
              ctx_comment_form_bound = False,
              ctx_similar_posts = [ex_more_similar, ex_similar], ctx_messages = []\<rparr>) \<and>
   publish ex_post \<le> ex_now"
proof -
  let ?r = "RenderList \<lparr>ctx_tag = None, ctx_date = None,
              ctx_posts = \<lparr>object_list = [ex_post, ex_similar, ex_more_similar, ex_old],
                           number = 1, paginator_num_pages = 2\<rparr>,
              ctx_query = None, ctx_total_results = 5\<rparr>"
  let ?c = "\<lparr>ctx_post = ex_post, ctx_comments = [], ctx_new_comment = None,
              ctx_comment_form_bound = False,
              ctx_similar_posts = [ex_more_similar, ex_similar], ctx_messages = []\<rparr>"
  note vis = future_posts_invisible [of ex_similarity ex_db ex_now "ex_request Map.empty False"
      None None None ex_post ex_validate_email ex_now 2020 9 5 "''post''"]
  have ev: "post_list ex_similarity ex_db ex_now (ex_request Map.empty False) None None None
      = Inr ?r"
    by code_simp
  have "ex_old \<in> set (response_posts ?r)"
    by simp
  with vis ev have old: "publish ex_old \<le> ex_now"
    by blast
  have fut: "ex_now < publish ex_future"
    by code_simp
  with vis have sim: "ex_future \<notin> set (get_similar_posts ex_post ex_now (posts ex_db))"
    by blast
  have mem: "ex_future \<in> set (posts ex_db)"
    by (simp add: ex_db_def ex_posts_def)
  have det: "fst (post_detail ex_validate_email ex_db ex_now ex_now (ex_request Map.empty False)
          2020 11 4 ''future-post'') = Inl Http404"
    by code_simp
  have shown: "fst (post_detail ex_validate_email ex_db ex_now ex_now
          (ex_request Map.empty False) 2020 9 5 ''post'') = Inr (RenderDetail ?c)"
    by code_simp
  with vis have "\<exists>c. RenderDetail ?c = RenderDetail c \<and> publish (ctx_post c) \<le> ex_now"
    by blast
  then have post: "publish ex_post \<le> ex_now"
    by auto
  from ev old fut mem sim det shown post show ?thesis
    by simp
qed

subsection \<open>Comment submission\<close>

lemma post_detail_database:
  "snd (post_detail validate_email db now now_similar req year month day post_slug) = db"
  by (simp add: post_detail_def Let_def save_def split: sum.splits)

lemma year_lookup_bounds_ok:
  "1 \<le> y \<Longrightarrow> y \<le> 9999 \<Longrightarrow>
     year_lookup_bounds y = Inr ((y, 1, 1, 0), (y, 12, 31, 86399999999))"
  by (simp add: year_lookup_bounds_def py_datetime_def fits_c_int_def days_in_month_def)

text \<open>
  C8. For every POST request to the detail view that finds its post (the year is one a
  timestamp can have, 1 to 9999, and one post matches) and whose comment form validates,
  the view calls \<open>save\<close> on \<open>new_comment\<close>, which still holds \<open>None\<close>: the call raises
  \<open>AttributeError\<close>, the request fails, and the database is left as it was, with no comment
  added.
\<close>

theorem comment_save_on_none:
  assumes "1 \<le> year" and "year \<le> 9999"
    and "filter (\<lambda>p. slug p = post_slug \<and> publish p \<le> now
                       \<and> dt_year (publish p) = year \<and> dt_month (publish p) = month
                       \<and> dt_day (publish p) = day) (posts db) = [found]"
    and "http_method req = ''POST''"
    and "comment_form_is_valid validate_email (POST req)"
  shows "post_detail validate_email db now now_similar req year month day post_slug
           = (Inl AttributeError, db) \<and>
         save None db = Inl AttributeError \<and>
         comments (snd (post_detail validate_email db now now_similar req year month day
                          post_slug)) = comments db"
  using assms(3-5) year_lookup_bounds_ok [OF assms(1,2)]
  by (simp add: post_detail_def Let_def save_def get_object_or_404_one)

theorem comment_save_on_none_witness:
  "comment_form_is_valid ex_validate_email (POST ex_comment_request) \<and>
   post_detail ex_validate_email ex_db ex_now ex_now ex_comment_request 2020 9 5 ''post''
     = (Inl AttributeError, ex_db)"
proof -
  have f: "filter (\<lambda>p. slug p = ''post'' \<and> publish p \<le> ex_now
                       \<and> dt_year (publish p) = 2020 \<and> dt_month (publish p) = 9
                       \<and> dt_day (publish p) = 5) (posts ex_db) = [ex_post]"
    by code_simp
  have m: "http_method ex_comment_request = ''POST''"
    by (simp add: ex_comment_request_def)
  have v: "comment_form_is_valid ex_validate_email (POST ex_comment_request)"
    by (simp add: comment_form_is_valid_def char_field_clean_def py_strip_def is_space_def
        ex_comment_request_def ex_validate_email_def)
  have y: "(1::int) \<le> 2020" "(2020::int) \<le> 9999"
    by simp_all
  from comment_save_on_none [OF y f m v] v show ?thesis
    by simp
qed

end
